theory Spec2Isabelle
  imports Main
begin

section \<open>Data model of the pledge submission\<close>

text \<open>
  The pledge submission mutation (\<^verbatim>\<open>src/unnamed/part_000\<close>) is one asynchronous
  JavaScript function. It opens a transaction on the relational store, validates the
  submitted options against the catalog, settles the acting user, guards reduced
  pledges, inserts the pledge and its options and commits; a \<^verbatim>\<open>catch\<close> around the
  whole body rolls the transaction back and throws the error again.

  Identifiers, e-mail addresses and names are strings. Amounts, prices and totals are
  integers of the store and of the GraphQL input, held as \<open>int\<close>; the function computes on
  them with JavaScript numbers, which are doubles (see \<open>toDouble\<close> below).
\<close>

type_synonym ident = string

record packageOption =
  pko_id :: ident
  pko_packageId :: ident
  pko_rewardId :: "ident option"
  minAmount :: int
  maxAmount :: int
  pko_price :: int
  userPrice :: bool
  minUserPrice :: int

record pledgeOptionInput =
  templateId :: ident
  amount :: int
  plo_price :: int

record pledgeOption = pledgeOptionInput +
  pledgeId :: ident

record userInput =
  email :: string
  firstName :: string
  lastName :: string
  birthday :: "string option"

record pledgeInput =
  total_sub :: int
  reason :: "string option"
  user_sub :: userInput
  options_sub :: "pledgeOptionInput list"

record user_row =
  u_id :: ident
  u_email :: string
  u_firstName :: "string option"
  u_lastName :: "string option"
  u_birthday :: "string option"

record pledge_row =
  p_id :: ident
  p_userId :: ident
  p_packageId :: ident
  p_total :: int
  p_donation :: int
  p_reason :: "string option"
  p_status :: string

record paymentSource =
  ps_userId :: ident
  ps_method :: string
  pspId :: "string option"

record reward =
  r_id :: ident
  rewardType :: string

text \<open>The tables the mutation reads or writes.\<close>

record db =
  users :: "user_row list"
  pledges :: "pledge_row list"
  pledgeOptions :: "pledgeOption list"
  packageOptions :: "packageOption list"
  paymentSources :: "paymentSource list"
  rewards :: "reward list"

text \<open>
  The writes of the function and its commit, each an awaited call of the store inside
  \<^verbatim>\<open>try\<close> that the store may reject (a constraint, a lost connection). The options of a
  pledge are inserted one call per option, numbered from 0.
\<close>

datatype store_write =
    UsersInsert
  | UsersUpdate
  | PledgesInsert
  | PledgeOptionsInsert nat
  | TransactionCommit

text \<open>
  What the function takes from its surroundings: the translation function \<^verbatim>\<open>t\<close>, the
  identifiers the store gives to the rows inserted into \<^verbatim>\<open>users\<close> and \<^verbatim>\<open>pledges\<close>, the
  value of \<^verbatim>\<open>uuid()\<close>, the signature function \<^verbatim>\<open>postfinanceSHA\<close>, and the behaviour of
  the store library, which is not part of the sources: which writes it rejects in this
  run, and whether it refuses a \<^verbatim>\<open>find\<close> by an empty list of values (as the guards
  before such calls in \<^verbatim>\<open>src/graphql/resolvers.js\<close> suggest) or answers it with no row.
\<close>

record env =
  translate :: "string \<Rightarrow> string"
  newUserId :: ident
  newPledgeId :: ident
  uuid :: string
  postfinanceSHA :: "ident \<Rightarrow> int \<Rightarrow> string \<Rightarrow> ident \<Rightarrow> string"
  rejects :: "store_write \<Rightarrow> bool"
  refusesEmptyFind :: bool

subsection \<open>Exceptions and results\<close>

text \<open>
  \<open>Error m\<close> is \<^verbatim>\<open>new Error(m)\<close>. \<open>TypeError p\<close> is the exception of reading the property
  \<open>p\<close> of \<^verbatim>\<open>undefined\<close>, \<open>ReferenceError v\<close> the one of reading the undeclared variable
  \<open>v\<close>, \<open>StoreError c\<close> the rejection of the store call \<open>c\<close>.
\<close>

datatype js_exn = Error string | TypeError string | ReferenceError string | StoreError string

text \<open>
  The checks of the function, under the names of the specification's taxonomy. A failure
  records the check whose branch was entered, if any, and the exception that left it.
\<close>

datatype check =
    InvalidTemplateReference
  | CrossPackageSelection
  | AmountOutOfRange
  | TotalBelowMinimum
  | MissingReductionReason
  | IdentityMismatch
  | ReducedPledgeAlreadyUsed

datatype failure = Rejected check js_exn | Crashed js_exn

fun thrown :: "failure \<Rightarrow> js_exn" where
  "thrown (Rejected c e) = e"
| "thrown (Crashed e) = e"

record created =
  c_pledgeId :: ident
  c_userId :: ident
  c_pfSHA :: string
  c_pfAliasId :: string

datatype outcome = EmailVerify | Created created

text \<open>How the function left its transaction.\<close>

datatype txn_end = Committed | RolledBack | LeftOpen

text \<open>
  The connection: the rows every reader sees (\<open>committed\<close>), the rows the transaction
  sees (\<open>working\<close>), and how the transaction ended.
\<close>

record conn =
  committed :: db
  working :: db
  txn :: txn_end

definition transactionBegin :: "db \<Rightarrow> conn" where
  "transactionBegin d = \<lparr>committed = d, working = d, txn = LeftOpen\<rparr>"

definition transactionCommit :: "env \<Rightarrow> conn \<Rightarrow> failure + conn" where
  "transactionCommit ev c =
     (if rejects ev TransactionCommit then Inl (Crashed (StoreError ''transactionCommit''))
      else Inr (c\<lparr>committed := working c, txn := Committed\<rparr>))"

definition transactionRollback :: "conn \<Rightarrow> conn" where
  "transactionRollback c = c\<lparr>working := committed c, txn := RolledBack\<rparr>"

section \<open>JavaScript numbers\<close>

text \<open>
  A JavaScript number is a double. Every integer up to \<open>2^53\<close> in magnitude is a double;
  beyond, a double keeps the 53 leading bits, and the result of an operation is the
  double nearest to the exact result, the even one of two that are equally near. The
  sums, products and differences of the function are taken on integers, so that their
  doubles are integers again. (Amounts, prices and totals of 32 bits keep every result
  far below the largest double.)
\<close>

function bitLength :: "int \<Rightarrow> nat" where
  "bitLength n = (if n \<le> 0 then 0 else Suc (bitLength (n div 2)))"
  by pat_completeness auto
termination
  by (relation "measure nat") auto

declare bitLength.simps [simp del]

definition toDouble :: "int \<Rightarrow> int" where
  "toDouble x =
     (if \<bar>x\<bar> \<le> 2 ^ 53 then x
      else (let q = 2 ^ (bitLength \<bar>x\<bar> - 53);
                m = \<bar>x\<bar> div q;
                r = \<bar>x\<bar> mod q;
                m' = (if q < 2 * r \<or> (2 * r = q \<and> odd m) then m + 1 else m)
            in sgn x * (m' * q)))"

definition js_add :: "int \<Rightarrow> int \<Rightarrow> int" where
  "js_add a b = toDouble (a + b)"

definition js_sub :: "int \<Rightarrow> int \<Rightarrow> int" where
  "js_sub a b = toDouble (a - b)"

definition js_mul :: "int \<Rightarrow> int \<Rightarrow> int" where
  "js_mul a b = toDouble (a * b)"

section \<open>Store operations\<close>

text \<open>
  The store library's \<^verbatim>\<open>find({column: values})\<close> returns the rows whose column is one of
  the values, unless the list of values is empty and the library refuses such a call;
  \<^verbatim>\<open>find({column: value})\<close> returns the rows with that value, \<^verbatim>\<open>findOne\<close> the row that
  matches (a key column identifies at most one row), \<^verbatim>\<open>count\<close> the number of matching
  rows. A write either is rejected or changes the rows the transaction sees.
\<close>

definition packageOptions_find :: "env \<Rightarrow> packageOption list \<Rightarrow> ident list \<Rightarrow> failure + packageOption list" where
  "packageOptions_find ev tbl ids =
     (if refusesEmptyFind ev \<and> ids = [] then Inl (Crashed (StoreError ''packageOptions.find''))
      else Inr (filter (\<lambda>r. pko_id r \<in> set ids) tbl))"

definition users_findOne :: "user_row list \<Rightarrow> string \<Rightarrow> user_row option" where
  "users_findOne tbl e = find (\<lambda>u. u_email u = e) tbl"

definition pledges_find :: "pledge_row list \<Rightarrow> ident \<Rightarrow> pledge_row list" where
  "pledges_find tbl uid = filter (\<lambda>p. p_userId p = uid) tbl"

definition pledges_count :: "pledge_row list \<Rightarrow> ident \<Rightarrow> nat" where
  "pledges_count tbl uid = length (pledges_find tbl uid)"

definition pledgeOptions_find :: "env \<Rightarrow> pledgeOption list \<Rightarrow> ident list \<Rightarrow> failure + pledgeOption list" where
  "pledgeOptions_find ev tbl pids =
     (if refusesEmptyFind ev \<and> pids = [] then Inl (Crashed (StoreError ''pledgeOptions.find''))
      else Inr (filter (\<lambda>r. pledgeId r \<in> set pids) tbl))"

definition rewards_find :: "env \<Rightarrow> reward list \<Rightarrow> ident option list \<Rightarrow> failure + reward list" where
  "rewards_find ev tbl rids =
     (if refusesEmptyFind ev \<and> rids = [] then Inl (Crashed (StoreError ''rewards.find''))
      else Inr (filter (\<lambda>r. Some (r_id r) \<in> set rids) tbl))"

definition paymentSources_findOneFieldOnly :: "paymentSource list \<Rightarrow> ident \<Rightarrow> string \<Rightarrow> string option" where
  "paymentSources_findOneFieldOnly tbl uid m =
     (case find (\<lambda>s. ps_userId s = uid \<and> ps_method s = m) tbl of
        None \<Rightarrow> None
      | Some s \<Rightarrow> pspId s)"

definition users_insertAndGet :: "env \<Rightarrow> userInput \<Rightarrow> user_row list \<Rightarrow> failure + user_row \<times> user_row list" where
  "users_insertAndGet ev ui tbl =
     (if rejects ev UsersInsert then Inl (Crashed (StoreError ''users.insertAndGet''))
      else (let row = \<lparr>u_id = newUserId ev, u_email = email ui, u_firstName = Some (firstName ui),
                       u_lastName = Some (lastName ui), u_birthday = birthday ui\<rparr>
            in Inr (row, tbl @ [row])))"

definition users_updateAndGetOne :: "env \<Rightarrow> ident \<Rightarrow> string \<Rightarrow> string \<Rightarrow> user_row list \<Rightarrow> failure + user_row option \<times> user_row list" where
  "users_updateAndGetOne ev uid fn ln tbl =
     (if rejects ev UsersUpdate then Inl (Crashed (StoreError ''users.updateAndGetOne''))
      else (let tbl' = map (\<lambda>u. if u_id u = uid then u\<lparr>u_firstName := Some fn, u_lastName := Some ln\<rparr>
                                else u) tbl
            in Inr (find (\<lambda>u. u_id u = uid) tbl', tbl')))"

definition pledges_insertAndGet :: "env \<Rightarrow> pledge_row \<Rightarrow> pledge_row list \<Rightarrow> failure + pledge_row \<times> pledge_row list" where
  "pledges_insertAndGet ev row tbl =
     (if rejects ev PledgesInsert then Inl (Crashed (StoreError ''pledges.insertAndGet''))
      else Inr (row, tbl @ [row]))"

definition pledgeOptions_insertAndGet :: "env \<Rightarrow> nat \<Rightarrow> pledgeOption \<Rightarrow> pledgeOption list \<Rightarrow> failure + pledgeOption \<times> pledgeOption list" where
  "pledgeOptions_insertAndGet ev i row tbl =
     (if rejects ev (PledgeOptionsInsert i) then Inl (Crashed (StoreError ''pledgeOptions.insertAndGet''))
      else Inr (row, tbl @ [row]))"

section \<open>The mutation\<close>

subsection \<open>Lines 12 to 38: templates, package and amounts\<close>

text \<open>
  The templates are loaded by the submitted ids; the function throws when it has found
  fewer rows than there are submitted options.
\<close>

definition loadPackageOptions :: "env \<Rightarrow> db \<Rightarrow> pledgeOptionInput list \<Rightarrow> failure + packageOption list" where
  "loadPackageOptions ev w plos =
     (let pledgeOptionsTemplateIds = map templateId plos
      in case packageOptions_find ev (packageOptions w) pledgeOptionsTemplateIds of
           Inl f \<Rightarrow> Inl f
         | Inr pkos \<Rightarrow>
             if length pkos < length plos
             then Inl (Rejected InvalidTemplateReference (Error (translate ev ''api/unexpected'')))
             else Inr pkos)"

text \<open>
  JavaScript reads \<^verbatim>\<open>a <= b <= c\<close> as \<^verbatim>\<open>(a <= b) <= c\<close>: the first comparison gives a
  boolean, which the second one converts to the number 1 or 0.
\<close>

definition chained_le :: "int \<Rightarrow> int \<Rightarrow> int \<Rightarrow> bool" where
  "chained_le a b c = ((if a \<le> b then 1 else 0) \<le> c)"

text \<open>The body of \<^verbatim>\<open>pledgeOptions.forEach\<close>, option after option.\<close>

fun forEachOption :: "env \<Rightarrow> ident \<Rightarrow> packageOption list \<Rightarrow> pledgeOptionInput list \<Rightarrow> failure + unit" where
  "forEachOption ev packageId pkos [] = Inr ()"
| "forEachOption ev packageId pkos (plo # rest) =
     (case find (\<lambda>pko. pko_id pko = templateId plo) pkos of
        None \<Rightarrow> Inl (Crashed (TypeError ''packageId''))
      | Some pko \<Rightarrow>
          if packageId \<noteq> pko_packageId pko
          then Inl (Rejected CrossPackageSelection (Error (translate ev ''api/unexpected'')))
          else if \<not> chained_le (minAmount pko) (amount plo) (maxAmount pko)
          then Inl (Rejected AmountOutOfRange (Error (translate ev ''api/unexpected'')))
          else forEachOption ev packageId pkos rest)"

text \<open>
  \<^verbatim>\<open>packageOptions[0].packageId\<close> reads a property of \<^verbatim>\<open>undefined\<close> when no row was
  loaded.
\<close>

definition checkOptions :: "env \<Rightarrow> packageOption list \<Rightarrow> pledgeOptionInput list \<Rightarrow> failure + ident" where
  "checkOptions ev pkos plos =
     (case pkos of
        [] \<Rightarrow> Inl (Crashed (TypeError ''packageId''))
      | pko0 # _ \<Rightarrow>
          (case forEachOption ev (pko_packageId pko0) pkos plos of
             Inl f \<Rightarrow> Inl f
           | Inr _ \<Rightarrow> Inr (pko_packageId pko0)))"

subsection \<open>Lines 40 to 70: totals, donation and reason\<close>

text \<open>
  Both totals are a \<^verbatim>\<open>reduce\<close> from 0 over the submitted options, each looking its
  template up among the loaded rows and adding one line's price to the sum so far.
\<close>

fun reduceOptions :: "string \<Rightarrow> (packageOption \<Rightarrow> pledgeOptionInput \<Rightarrow> int) \<Rightarrow> packageOption list \<Rightarrow> pledgeOptionInput list \<Rightarrow> int \<Rightarrow> failure + int" where
  "reduceOptions nm line pkos [] acc = Inr acc"
| "reduceOptions nm line pkos (plo # rest) acc =
     (case find (\<lambda>pko. pko_id pko = templateId plo) pkos of
        None \<Rightarrow> Inl (Crashed (TypeError nm))
      | Some pko \<Rightarrow> reduceOptions nm line pkos rest (js_add acc (line pko plo)))"

definition minTotal :: "packageOption list \<Rightarrow> pledgeOptionInput list \<Rightarrow> failure + int" where
  "minTotal pkos plos =
     (case reduceOptions ''userPrice''
             (\<lambda>pko plo. if userPrice pko then js_mul (minUserPrice pko) (amount plo)
                         else js_mul (pko_price pko) (amount plo)) pkos plos 0 of
        Inl f \<Rightarrow> Inl f
      | Inr s \<Rightarrow> Inr (max s 100))"

text \<open>
  The message logged in the branch of a total below the minimum interpolates the variable
  \<^verbatim>\<open>total\<close>, which the function never declares: building the message throws before the
  \<^verbatim>\<open>throw\<close> of the next line is reached.
\<close>

definition checkTotal :: "env \<Rightarrow> packageOption list \<Rightarrow> pledgeInput \<Rightarrow> failure + unit" where
  "checkTotal ev pkos pledge =
     (case minTotal pkos (options_sub pledge) of
        Inl f \<Rightarrow> Inl f
      | Inr m \<Rightarrow>
          if total_sub pledge < m
          then Inl (Rejected TotalBelowMinimum (ReferenceError ''total''))
          else Inr ())"

definition regularTotal :: "packageOption list \<Rightarrow> pledgeOptionInput list \<Rightarrow> failure + int" where
  "regularTotal pkos plos =
     (case reduceOptions ''price'' (\<lambda>pko plo. js_mul (pko_price pko) (amount plo)) pkos plos 0 of
        Inl f \<Rightarrow> Inl f
      | Inr s \<Rightarrow> Inr (max s 100))"

text \<open>Lines 56 to 65: \<^verbatim>\<open>donation = pledge.total - regularTotal\<close>.\<close>

definition calcDonation :: "packageOption list \<Rightarrow> pledgeInput \<Rightarrow> failure + int" where
  "calcDonation pkos pledge =
     (case regularTotal pkos (options_sub pledge) of
        Inl f \<Rightarrow> Inl f
      | Inr r \<Rightarrow> Inr (js_sub (total_sub pledge) r))"

text \<open>\<^verbatim>\<open>!pledge.reason\<close> holds of a missing reason and of the empty string.\<close>

definition noReason :: "pledgeInput \<Rightarrow> bool" where
  "noReason pledge = (case reason pledge of None \<Rightarrow> True | Some r \<Rightarrow> r = [])"

text \<open>Lines 66 to 70: a negative donation needs a reason.\<close>

definition checkReason :: "env \<Rightarrow> int \<Rightarrow> pledgeInput \<Rightarrow> failure + unit" where
  "checkReason ev donation pledge =
     (if donation < 0 \<and> noReason pledge
      then Inl (Rejected MissingReductionReason (Error (translate ev ''api/unexpected'')))
      else Inr ())"

subsection \<open>Lines 72 to 110: the acting user and the payment alias\<close>

text \<open>
  A step of the body throws, returns from the whole function, or goes on with a value.
\<close>

datatype 'a step = Throw failure | Return outcome | Next 'a

text \<open>
  After the update of the names, \<^verbatim>\<open>user\<close> is the row the update returned. When no row has
  the acting user's id it is \<^verbatim>\<open>undefined\<close>, and the next use of \<^verbatim>\<open>user.id\<close> (line 113
  for a negative donation, line 126 otherwise) throws before anything else is written.
\<close>

definition updateUserDetails :: "env \<Rightarrow> user_row \<Rightarrow> pledgeInput \<Rightarrow> db \<Rightarrow> user_row step \<times> db" where
  "updateUserDetails ev usr pledge w =
     (if u_firstName usr \<noteq> Some (firstName (user_sub pledge))
         \<or> u_lastName usr \<noteq> Some (lastName (user_sub pledge))
      then (case users_updateAndGetOne ev (u_id usr) (firstName (user_sub pledge))
                   (lastName (user_sub pledge)) (users w) of
              Inl f \<Rightarrow> (Throw f, w)
            | Inr (None, tbl) \<Rightarrow> (Throw (Crashed (TypeError ''id'')), w\<lparr>users := tbl\<rparr>)
            | Inr (Some usr', tbl) \<Rightarrow> (Next usr', w\<lparr>users := tbl\<rparr>))
      else (Next usr, w))"

text \<open>\<^verbatim>\<open>if(!pfAliasId) pfAliasId = uuid()\<close>: a missing or empty alias is replaced.\<close>

definition aliasOrNew :: "env \<Rightarrow> string option \<Rightarrow> string" where
  "aliasOrNew ev pfAliasId =
     (case pfAliasId of None \<Rightarrow> uuid ev | Some a \<Rightarrow> if a = [] then uuid ev else a)"

definition resolveUser :: "env \<Rightarrow> user_row option \<Rightarrow> pledgeInput \<Rightarrow> db \<Rightarrow> (user_row \<times> string) step \<times> db" where
  "resolveUser ev req_user pledge w =
     (case req_user of
        Some ru \<Rightarrow>
          if u_email ru \<noteq> email (user_sub pledge)
          then (Throw (Rejected IdentityMismatch (Error (translate ev ''api/unexpected''))), w)
          else
            (let pfAliasId = paymentSources_findOneFieldOnly (paymentSources w) (u_id ru) ''POSTFINANCECARD''
             in case updateUserDetails ev ru pledge w of
                  (Throw f, w') \<Rightarrow> (Throw f, w')
                | (Return r, w') \<Rightarrow> (Return r, w')
                | (Next usr, w') \<Rightarrow> (Next (usr, aliasOrNew ev pfAliasId), w'))
      | None \<Rightarrow>
          (case users_findOne (users w) (email (user_sub pledge)) of
             Some found \<Rightarrow>
               if 0 < pledges_count (pledges w) (u_id found)
               then (Return EmailVerify, w)
               else (case updateUserDetails ev found pledge w of
                       (Throw f, w') \<Rightarrow> (Throw f, w')
                     | (Return r, w') \<Rightarrow> (Return r, w')
                     | (Next usr, w') \<Rightarrow> (Next (usr, aliasOrNew ev None), w'))
           | None \<Rightarrow>
               (case users_insertAndGet ev (user_sub pledge) (users w) of
                  Inl f \<Rightarrow> (Throw f, w)
                | Inr (inserted, tbl) \<Rightarrow>
                    (case updateUserDetails ev inserted pledge (w\<lparr>users := tbl\<rparr>) of
                       (Throw f, w') \<Rightarrow> (Throw f, w')
                     | (Return r, w') \<Rightarrow> (Return r, w')
                     | (Next usr, w') \<Rightarrow> (Next (usr, aliasOrNew ev None), w')))))"

subsection \<open>Lines 112 to 122: the guard of reduced pledges\<close>

text \<open>
  The pledges, their options and the options' templates are read through the transaction,
  the rewards through the connection pool (\<^verbatim>\<open>pgdb.public.rewards\<close>), which sees the
  committed rows. Three of the four lookups are by a list of values.
\<close>

definition reachableRewards :: "env \<Rightarrow> db \<Rightarrow> db \<Rightarrow> ident \<Rightarrow> failure + reward list" where
  "reachableRewards ev d w uid =
     (let pledges' = pledges_find (pledges w) uid
      in case pledgeOptions_find ev (pledgeOptions w) (map p_id pledges') of
           Inl f \<Rightarrow> Inl f
         | Inr pledgeOptions' \<Rightarrow>
        (case packageOptions_find ev (packageOptions w) (map templateId pledgeOptions') of
           Inl f \<Rightarrow> Inl f
         | Inr packageOptions' \<Rightarrow>
             rewards_find ev (rewards d) (map pko_rewardId packageOptions')))"

definition reducedPledgeGuard :: "env \<Rightarrow> int \<Rightarrow> ident \<Rightarrow> db \<Rightarrow> db \<Rightarrow> failure + unit" where
  "reducedPledgeGuard ev donation uid d w =
     (if donation < 0 \<and> 0 < pledges_count (pledges w) uid
      then (case reachableRewards ev d w uid of
              Inl f \<Rightarrow> Inl f
            | Inr rewards' \<Rightarrow>
                if rewards' \<noteq> []
                then Inl (Rejected ReducedPledgeAlreadyUsed
                            (Error (translate ev ''api/membership/reduced/alreadyHas'')))
                else Inr ())
      else Inr ())"

subsection \<open>Lines 124 to 143: the pledge and its options\<close>

text \<open>
  The inserts of the options are started together and awaited together; here they run in
  the order of the options, and the first rejection ends them. A failed step hands back
  the rows the transaction sees at that moment.
\<close>

fun insertPledgeOptions :: "env \<Rightarrow> ident \<Rightarrow> nat \<Rightarrow> pledgeOptionInput list \<Rightarrow> pledgeOption list \<Rightarrow> (failure + pledgeOption list) \<times> pledgeOption list" where
  "insertPledgeOptions ev pid i [] tbl = (Inr [], tbl)"
| "insertPledgeOptions ev pid i (plo # rest) tbl =
     (case pledgeOptions_insertAndGet ev i
             \<lparr>templateId = templateId plo, amount = amount plo, plo_price = plo_price plo,
              pledgeId = pid\<rparr> tbl of
        Inl f \<Rightarrow> (Inl f, tbl)
      | Inr (row, tbl') \<Rightarrow>
          (case insertPledgeOptions ev pid (Suc i) rest tbl' of
             (Inl f, tbl'') \<Rightarrow> (Inl f, tbl'')
           | (Inr rows, tbl'') \<Rightarrow> (Inr (row # rows), tbl'')))"

definition insertPledge :: "env \<Rightarrow> pledgeInput \<Rightarrow> ident \<Rightarrow> int \<Rightarrow> user_row \<Rightarrow> db \<Rightarrow> (failure + pledge_row) \<times> db" where
  "insertPledge ev pledge packageId donation usr w =
     (case pledges_insertAndGet ev
             \<lparr>p_id = newPledgeId ev, p_userId = u_id usr, p_packageId = packageId,
              p_total = total_sub pledge, p_donation = donation, p_reason = reason pledge,
              p_status = ''DRAFT''\<rparr> (pledges w) of
        Inl f \<Rightarrow> (Inl f, w)
      | Inr (newPledge, tbl) \<Rightarrow>
          (case insertPledgeOptions ev (p_id newPledge) 0 (options_sub pledge) (pledgeOptions w) of
             (Inl f, tbl') \<Rightarrow> (Inl f, w\<lparr>pledges := tbl, pledgeOptions := tbl'\<rparr>)
           | (Inr newPledgeOptions, tbl') \<Rightarrow>
               (Inr newPledge, w\<lparr>pledges := tbl, pledgeOptions := tbl'\<rparr>)))"

subsection \<open>The body of \<^verbatim>\<open>try\<close> and the function\<close>

text \<open>Lines 12 to 70 in their order: the package of the pledge and the donation.\<close>

definition pricing :: "env \<Rightarrow> db \<Rightarrow> pledgeInput \<Rightarrow> failure + ident \<times> int" where
  "pricing ev w pledge =
     (case loadPackageOptions ev w (options_sub pledge) of
        Inl f \<Rightarrow> Inl f
      | Inr pkos \<Rightarrow>
     (case checkOptions ev pkos (options_sub pledge) of
        Inl f \<Rightarrow> Inl f
      | Inr packageId \<Rightarrow>
     (case checkTotal ev pkos pledge of
        Inl f \<Rightarrow> Inl f
      | Inr _ \<Rightarrow>
     (case calcDonation pkos pledge of
        Inl f \<Rightarrow> Inl f
      | Inr donation \<Rightarrow>
     (case checkReason ev donation pledge of
        Inl f \<Rightarrow> Inl f
      | Inr _ \<Rightarrow> Inr (packageId, donation))))))"

definition body :: "env \<Rightarrow> user_row option \<Rightarrow> pledgeInput \<Rightarrow> conn \<Rightarrow> (failure + outcome) \<times> conn" where
  "body ev req_user pledge c =
     (case pricing ev (working c) pledge of
        Inl f \<Rightarrow> (Inl f, c)
      | Inr (packageId, donation) \<Rightarrow>
     (case resolveUser ev req_user pledge (working c) of
        (Throw f, w) \<Rightarrow> (Inl f, c\<lparr>working := w\<rparr>)
      | (Return r, w) \<Rightarrow> (Inr r, c\<lparr>working := w\<rparr>)
      | (Next (usr, pfAliasId), w) \<Rightarrow>
     (case reducedPledgeGuard ev donation (u_id usr) (committed c) w of
        Inl f \<Rightarrow> (Inl f, c\<lparr>working := w\<rparr>)
      | Inr _ \<Rightarrow>
     (case insertPledge ev pledge packageId donation usr w of
        (Inl f, w') \<Rightarrow> (Inl f, c\<lparr>working := w'\<rparr>)
      | (Inr newPledge, w') \<Rightarrow>
     (case transactionCommit ev (c\<lparr>working := w'\<rparr>) of
        Inl f \<Rightarrow> (Inl f, c\<lparr>working := w'\<rparr>)
      | Inr c' \<Rightarrow>
          (let pfSHA = postfinanceSHA ev (p_id newPledge) (p_total newPledge) pfAliasId (u_id usr)
           in (Inr (Created \<lparr>c_pledgeId = p_id newPledge, c_userId = u_id usr,
                                c_pfSHA = pfSHA, c_pfAliasId = pfAliasId\<rparr>), c')))))))"

text \<open>
  \<^verbatim>\<open>transactionBegin\<close>, the body, and the \<^verbatim>\<open>catch\<close>: any exception of the body rolls the
  transaction back and is thrown again.
\<close>

definition submitPledge :: "env \<Rightarrow> user_row option \<Rightarrow> pledgeInput \<Rightarrow> db \<Rightarrow> (failure + outcome) \<times> conn" where
  "submitPledge ev req_user pledge d =
     (case body ev req_user pledge (transactionBegin d) of
        (Inl e, c) \<Rightarrow> (Inl e, transactionRollback c)
      | (Inr r, c) \<Rightarrow> (Inr r, c))"

section \<open>The specification's terms\<close>

text \<open>
  The template of a submitted option is the catalog row with the option's template id. The
  two totals below follow the wording of the specification: the sum over the options of
  the amount times a unit price of the template, and at least 100.
\<close>

definition templateOf :: "db \<Rightarrow> pledgeOptionInput \<Rightarrow> packageOption option" where
  "templateOf d plo = find (\<lambda>pko. pko_id pko = templateId plo) (packageOptions d)"

definition spec_minTotal :: "db \<Rightarrow> pledgeOptionInput list \<Rightarrow> int" where
  "spec_minTotal d plos =
     max 100 (\<Sum>plo\<leftarrow>plos. case templateOf d plo of
                None \<Rightarrow> 0
              | Some pko \<Rightarrow> amount plo * (if userPrice pko then minUserPrice pko else pko_price pko))"

definition spec_regularTotal :: "db \<Rightarrow> pledgeOptionInput list \<Rightarrow> int" where
  "spec_regularTotal d plos =
     max 100 (\<Sum>plo\<leftarrow>plos. case templateOf d plo of
                None \<Rightarrow> 0
              | Some pko \<Rightarrow> amount plo * pko_price pko)"

text \<open>
  The size of a submission's lines: the sum over the options of the magnitude of the
  amount times the larger magnitude of the template's two unit prices. Up to \<open>2^53\<close> every
  product and every partial sum of the function's totals is an integer that a double
  holds exactly.
\<close>

definition magnitude :: "db \<Rightarrow> pledgeOptionInput list \<Rightarrow> int" where
  "magnitude d plos =
     (\<Sum>plo\<leftarrow>plos. case templateOf d plo of
                None \<Rightarrow> 0
              | Some pko \<Rightarrow> \<bar>amount plo\<bar> * max \<bar>pko_price pko\<bar> \<bar>minUserPrice pko\<bar>)"

text \<open>
  A reward is reachable from a user when one of the user's pledges has an option whose
  template names the reward. A user has a templated option when one of the user's
  pledges has an option whose template exists.
\<close>

definition rewardReachable :: "db \<Rightarrow> ident \<Rightarrow> bool" where
  "rewardReachable d uid =
     (\<exists>p\<in>set (pledges d). p_userId p = uid \<and>
        (\<exists>x\<in>set (pledgeOptions d). pledgeId x = p_id p \<and>
           (\<exists>k\<in>set (packageOptions d). pko_id k = templateId x \<and>
              (\<exists>r\<in>set (rewards d). pko_rewardId k = Some (r_id r)))))"

definition hasTemplatedOption :: "db \<Rightarrow> ident \<Rightarrow> bool" where
  "hasTemplatedOption d uid =
     (\<exists>p\<in>set (pledges d). p_userId p = uid \<and>
        (\<exists>x\<in>set (pledgeOptions d). pledgeId x = p_id p \<and>
           (\<exists>k\<in>set (packageOptions d). pko_id k = templateId x)))"

text \<open>The rows the lookups of the guard answer with, one after the other.\<close>

definition userOptionRows :: "db \<Rightarrow> ident \<Rightarrow> pledgeOption list" where
  "userOptionRows d uid =
     filter (\<lambda>r. pledgeId r \<in> set (map p_id (pledges_find (pledges d) uid))) (pledgeOptions d)"

definition userTemplateRows :: "db \<Rightarrow> ident \<Rightarrow> packageOption list" where
  "userTemplateRows d uid =
     filter (\<lambda>r. pko_id r \<in> set (map templateId (userOptionRows d uid))) (packageOptions d)"

definition userRewardRows :: "db \<Rightarrow> ident \<Rightarrow> reward list" where
  "userRewardRows d uid =
     filter (\<lambda>r. Some (r_id r) \<in> set (map pko_rewardId (userTemplateRows d uid))) (rewards d)"

text \<open>The option rows of a new pledge.\<close>

definition optionRows :: "ident \<Rightarrow> pledgeOptionInput list \<Rightarrow> pledgeOption list" where
  "optionRows pid plos =
     map (\<lambda>plo. \<lparr>templateId = templateId plo, amount = amount plo, plo_price = plo_price plo,
                  pledgeId = pid\<rparr>) plos"

text \<open>The connection after a rollback: nothing but the rows that were there before.\<close>

definition rolledBack :: "db \<Rightarrow> conn" where
  "rolledBack d = \<lparr>committed = d, working = d, txn = RolledBack\<rparr>"

section \<open>A catalog, two pledgers and some submissions\<close>

text \<open>
  Template A (1 to 5 pieces at 1000, at least 800 at a price of the user's choice, with a
  reward) and template B (1 to 3 pieces at 500, no reward) belong to the same package.
  Alice holds a pledge with a reward, Bob one without; Carol is not yet known. The store
  of the examples refuses a lookup by an empty list and rejects no write.
\<close>

definition ex_env :: env where
  "ex_env = \<lparr>translate = (\<lambda>key. key), newUserId = ''u9'', newPledgeId = ''p9'', uuid = ''alias9'',
             postfinanceSHA = (\<lambda>orderId amt alias userId. orderId @ alias @ userId),
             rejects = (\<lambda>c. False), refusesEmptyFind = True\<rparr>"


definition tplA :: packageOption where
  "tplA = \<lparr>pko_id = ''A'', pko_packageId = ''P'', pko_rewardId = Some ''R'', minAmount = 1,
           maxAmount = 5, pko_price = 1000, userPrice = True, minUserPrice = 800\<rparr>"

definition tplB :: packageOption where
  "tplB = \<lparr>pko_id = ''B'', pko_packageId = ''P'', pko_rewardId = None, minAmount = 1,
           maxAmount = 3, pko_price = 500, userPrice = False, minUserPrice = 0\<rparr>"

definition alice :: user_row where
  "alice = \<lparr>u_id = ''u1'', u_email = ''alice@example.org'', u_firstName = Some ''Alice'',
            u_lastName = Some ''Ames'', u_birthday = None\<rparr>"

definition bob :: user_row where
  "bob = \<lparr>u_id = ''u2'', u_email = ''bob@example.org'', u_firstName = Some ''Bob'',
          u_lastName = Some ''Bell'', u_birthday = None\<rparr>"

definition ex_db :: db where
  "ex_db = \<lparr>users = [alice, bob],
            pledges = [\<lparr>p_id = ''p1'', p_userId = ''u1'', p_packageId = ''P'', p_total = 1000,
                         p_donation = 0, p_reason = None, p_status = ''SUCCESSFUL''\<rparr>,
                       \<lparr>p_id = ''p2'', p_userId = ''u2'', p_packageId = ''P'', p_total = 500,
                         p_donation = 0, p_reason = None, p_status = ''SUCCESSFUL''\<rparr>],
            pledgeOptions = [\<lparr>templateId = ''A'', amount = 1, plo_price = 1000, pledgeId = ''p1''\<rparr>,
                             \<lparr>templateId = ''B'', amount = 1, plo_price = 500, pledgeId = ''p2''\<rparr>],
            packageOptions = [tplA, tplB],
            paymentSources = [\<lparr>ps_userId = ''u1'', ps_method = ''POSTFINANCECARD'', pspId = Some ''alias1''\<rparr>],
            rewards = [\<lparr>r_id = ''R'', rewardType = ''Goodie''\<rparr>]\<rparr>"

definition alicia :: userInput where
  "alicia = \<lparr>email = ''alice@example.org'', firstName = ''Alicia'', lastName = ''Ames'', birthday = None\<rparr>"


definition carol :: userInput where
  "carol = \<lparr>email = ''carol@example.org'', firstName = ''Carol'', lastName = ''Cole'', birthday = None\<rparr>"

definition oneA :: "pledgeOptionInput list" where
  "oneA = [\<lparr>templateId = ''A'', amount = 1, plo_price = 1000\<rparr>]"

definition threeA_oneB :: "pledgeOptionInput list" where
  "threeA_oneB = [\<lparr>templateId = ''A'', amount = 3, plo_price = 1000\<rparr>,
                  \<lparr>templateId = ''B'', amount = 1, plo_price = 500\<rparr>]"

definition submission :: "userInput \<Rightarrow> pledgeOptionInput list \<Rightarrow> int \<Rightarrow> string option \<Rightarrow> pledgeInput" where
  "submission who opts tot why = \<lparr>total_sub = tot, reason = why, user_sub = who, options_sub = opts\<rparr>"


definition sixA :: "pledgeOptionInput list" where
  "sixA = [\<lparr>templateId = ''A'', amount = 6, plo_price = 1000\<rparr>]"

definition zeroA :: "pledgeOptionInput list" where
  "zeroA = [\<lparr>templateId = ''A'', amount = 0, plo_price = 1000\<rparr>]"

definition twiceA :: "pledgeOptionInput list" where
  "twiceA = [\<lparr>templateId = ''A'', amount = 1, plo_price = 1000\<rparr>,
             \<lparr>templateId = ''A'', amount = 1, plo_price = 1000\<rparr>]"

definition oneZ :: "pledgeOptionInput list" where
  "oneZ = [\<lparr>templateId = ''Z'', amount = 1, plo_price = 1000\<rparr>]"

text \<open>
  A second catalog with prices and amounts at the upper end of 32 bits: G1 and G2 at the
  regular price only, H1 and H2 with a price of the user's choice from 1.
\<close>

definition tplG1 :: packageOption where
  "tplG1 = \<lparr>pko_id = ''G1'', pko_packageId = ''Q'', pko_rewardId = None, minAmount = 1,
            maxAmount = 2147483647, pko_price = 2147483647, userPrice = False, minUserPrice = 0\<rparr>"

definition tplG2 :: packageOption where
  "tplG2 = \<lparr>pko_id = ''G2'', pko_packageId = ''Q'', pko_rewardId = None, minAmount = 1,
            maxAmount = 2147483647, pko_price = 2147483647, userPrice = False, minUserPrice = 0\<rparr>"

definition tplH1 :: packageOption where
  "tplH1 = \<lparr>pko_id = ''H1'', pko_packageId = ''Q'', pko_rewardId = None, minAmount = 1,
            maxAmount = 2147483647, pko_price = 2147483647, userPrice = True, minUserPrice = 1\<rparr>"

definition tplH2 :: packageOption where
  "tplH2 = \<lparr>pko_id = ''H2'', pko_packageId = ''Q'', pko_rewardId = None, minAmount = 1,
            maxAmount = 2147483647, pko_price = 2147483647, userPrice = True, minUserPrice = 1\<rparr>"

definition big_db :: db where
  "big_db = \<lparr>users = [], pledges = [], pledgeOptions = [],
             packageOptions = [tplG1, tplG2, tplH1, tplH2], paymentSources = [], rewards = []\<rparr>"

definition bigG :: "pledgeOptionInput list" where
  "bigG = [\<lparr>templateId = ''G1'', amount = 2147483647, plo_price = 2147483647\<rparr>,
           \<lparr>templateId = ''G2'', amount = - 2147483646, plo_price = 2147483647\<rparr>]"

definition bigH :: "pledgeOptionInput list" where
  "bigH = [\<lparr>templateId = ''H1'', amount = 2147483647, plo_price = 2147483647\<rparr>,
           \<lparr>templateId = ''H2'', amount = - 2147483646, plo_price = 2147483647\<rparr>]"

section \<open>Properties of the steps\<close>

subsection \<open>Exact arithmetic\<close>

lemma toDouble_exact: "\<bar>x\<bar> \<le> 2 ^ 53 \<Longrightarrow> toDouble x = x"
  by (simp add: toDouble_def)

lemma js_add_exact: "\<bar>a + b\<bar> \<le> 2 ^ 53 \<Longrightarrow> js_add a b = a + b"
  by (simp add: js_add_def toDouble_exact)

lemma js_sub_exact: "\<bar>a - b\<bar> \<le> 2 ^ 53 \<Longrightarrow> js_sub a b = a - b"
  by (simp add: js_sub_def toDouble_exact)

lemma js_mul_exact: "\<bar>a * b\<bar> \<le> 2 ^ 53 \<Longrightarrow> js_mul a b = a * b"
  by (simp add: js_mul_def toDouble_exact)

lemma sum_list_abs_nonneg:
  "0 \<le> (\<Sum>x\<leftarrow>xs. case g x of None \<Rightarrow> 0 | Some y \<Rightarrow> \<bar>h y x :: int\<bar>)"
  by (induction xs) (auto split: option.splits)

lemma reduceOptions_exact:
  assumes "\<And>plo. plo \<in> set plos \<Longrightarrow> find (\<lambda>pko. pko_id pko = templateId plo) pkos \<noteq> None"
    and "\<And>plo pko. plo \<in> set plos \<Longrightarrow> find (\<lambda>pko. pko_id pko = templateId plo) pkos = Some pko
           \<Longrightarrow> line pko plo = ex pko plo"
    and "\<bar>acc\<bar> + (\<Sum>plo\<leftarrow>plos. case find (\<lambda>pko. pko_id pko = templateId plo) pkos of
                    None \<Rightarrow> 0 | Some pko \<Rightarrow> \<bar>ex pko plo\<bar>) \<le> 2 ^ 53"
  shows "reduceOptions nm line pkos plos acc =
     Inr (acc + (\<Sum>plo\<leftarrow>plos. case find (\<lambda>pko. pko_id pko = templateId plo) pkos of
                    None \<Rightarrow> 0 | Some pko \<Rightarrow> ex pko plo))"
  using assms
proof (induction plos arbitrary: acc)
  case Nil
  show ?case by simp
next
  case (Cons plo rest)
  let ?f = "\<lambda>plo. find (\<lambda>pko. pko_id pko = templateId plo) pkos"
  from Cons.prems(1) [of plo] obtain pko where f: "?f plo = Some pko" by auto
  from Cons.prems(2) [of plo pko] f have l: "line pko plo = ex pko plo" by simp
  have n: "0 \<le> (\<Sum>plo\<leftarrow>rest. case ?f plo of None \<Rightarrow> 0 | Some pko \<Rightarrow> \<bar>ex pko plo\<bar>)"
    by (rule sum_list_abs_nonneg)
  from Cons.prems(3) f
  have b: "\<bar>acc\<bar> + \<bar>ex pko plo\<bar> + (\<Sum>plo\<leftarrow>rest. case ?f plo of None \<Rightarrow> 0 | Some pko \<Rightarrow> \<bar>ex pko plo\<bar>) \<le> 2 ^ 53"
    by simp
  with n have "\<bar>acc + ex pko plo\<bar> \<le> 2 ^ 53" by linarith
  then have a: "js_add acc (line pko plo) = acc + ex pko plo"
    by (simp add: l js_add_exact)
  have "reduceOptions nm line pkos rest (acc + ex pko plo) =
     Inr (acc + ex pko plo + (\<Sum>plo\<leftarrow>rest. case ?f plo of None \<Rightarrow> 0 | Some pko \<Rightarrow> ex pko plo))"
  proof (rule Cons.IH)
    show "?f p \<noteq> None" if "p \<in> set rest" for p
      using that Cons.prems(1) [of p] by simp
    show "line k p = ex k p" if "p \<in> set rest" "?f p = Some k" for p k
      using that Cons.prems(2) [of p k] by simp
    show "\<bar>acc + ex pko plo\<bar> + (\<Sum>plo\<leftarrow>rest. case ?f plo of None \<Rightarrow> 0 | Some pko \<Rightarrow> \<bar>ex pko plo\<bar>) \<le> 2 ^ 53"
      using b by linarith
  qed
  with f a show ?case by simp
qed

subsection \<open>Totals\<close>

lemma find_loaded:
  "i \<in> S \<Longrightarrow>
   find (\<lambda>pko. pko_id pko = i) (filter (\<lambda>r. pko_id r \<in> S) tbl) = find (\<lambda>pko. pko_id pko = i) tbl"
  by (induction tbl) auto

lemma loadPackageOptions_Inr:
  assumes "loadPackageOptions ev d plos = Inr pkos"
  shows "pkos = filter (\<lambda>r. pko_id r \<in> set (map templateId plos)) (packageOptions d)"
    and "length plos \<le> length pkos"
    and "packageOptions_find ev (packageOptions d) (map templateId plos) = Inr pkos"
  using assms
  by (auto simp: loadPackageOptions_def packageOptions_find_def Let_def split: sum.splits if_splits)

lemma forEachOption_found:
  "forEachOption ev pk pkos plos = Inr u \<Longrightarrow> plo \<in> set plos \<Longrightarrow>
   find (\<lambda>pko. pko_id pko = templateId plo) pkos \<noteq> None"
  by (induction plos) (auto split: option.splits if_splits)

lemma checkOptions_found:
  assumes "checkOptions ev pkos plos = Inr pk" and "plo \<in> set plos"
  shows "find (\<lambda>pko. pko_id pko = templateId plo) pkos \<noteq> None"
  using assms unfolding checkOptions_def
  by (auto split: list.splits sum.splits dest: forEachOption_found)

lemma sum_loaded:
  "set plos \<subseteq> set allp \<Longrightarrow>
   (\<Sum>plo\<leftarrow>plos. case find (\<lambda>pko. pko_id pko = templateId plo)
                          (filter (\<lambda>r. pko_id r \<in> set (map templateId allp)) (packageOptions d)) of
                    None \<Rightarrow> 0 | Some pko \<Rightarrow> h pko plo)
   = (\<Sum>plo\<leftarrow>plos. case templateOf d plo of None \<Rightarrow> 0 | Some pko \<Rightarrow> (h pko plo :: int))"
  by (induction plos) (auto simp: find_loaded templateOf_def)

lemma member_le_sum_list_nonneg:
  "x \<in> set xs \<Longrightarrow> (\<And>y. y \<in> set xs \<Longrightarrow> 0 \<le> f y) \<Longrightarrow> (f x :: int) \<le> sum_list (map f xs)"
proof (induction xs)
  case Nil
  then show ?case by simp
next
  case (Cons a xs)
  have n: "0 \<le> sum_list (map f xs)"
    by (rule sum_list_nonneg) (use Cons.prems(2) in auto)
  show ?case
  proof (cases "x = a")
    case True
    with n show ?thesis by simp
  next
    case False
    with Cons have "f x \<le> sum_list (map f xs)" by simp
    moreover have "0 \<le> f a" using Cons.prems(2) by simp
    ultimately show ?thesis by simp
  qed
qed

lemma line_within_magnitude:
  assumes "plo \<in> set plos" and "templateOf d plo = Some pko" and "magnitude d plos \<le> 2 ^ 53"
  shows "\<bar>amount plo\<bar> * max \<bar>pko_price pko\<bar> \<bar>minUserPrice pko\<bar> \<le> 2 ^ 53"
proof -
  let ?f = "\<lambda>plo. case templateOf d plo of None \<Rightarrow> 0
              | Some pko \<Rightarrow> \<bar>amount plo\<bar> * max \<bar>pko_price pko\<bar> \<bar>minUserPrice pko\<bar>"
  have "?f plo \<le> sum_list (map ?f plos)"
    by (rule member_le_sum_list_nonneg [OF assms(1)]) (simp split: option.splits)
  with assms(2,3) show ?thesis by (simp add: magnitude_def)
qed

lemma product_le_line:
  "\<bar>p\<bar> \<le> max \<bar>a\<bar> \<bar>b :: int\<bar> \<Longrightarrow> \<bar>p * n\<bar> \<le> \<bar>n\<bar> * max \<bar>a\<bar> \<bar>b\<bar>"
  by (simp add: abs_mult mult.commute mult_left_mono)

lemma sum_abs_le_magnitude:
  assumes "\<And>pko. \<bar>u pko\<bar> \<le> max \<bar>pko_price pko\<bar> \<bar>minUserPrice pko\<bar>"
  shows "(\<Sum>plo\<leftarrow>plos. case templateOf d plo of None \<Rightarrow> 0 | Some pko \<Rightarrow> \<bar>amount plo * u pko\<bar>)
         \<le> magnitude d plos"
  unfolding magnitude_def
proof (induction plos)
  case Nil
  show ?case by simp
next
  case (Cons plo rest)
  have "(case templateOf d plo of None \<Rightarrow> 0 | Some pko \<Rightarrow> \<bar>amount plo * u pko\<bar>)
        \<le> (case templateOf d plo of None \<Rightarrow> 0
            | Some pko \<Rightarrow> \<bar>amount plo\<bar> * max \<bar>pko_price pko\<bar> \<bar>minUserPrice pko\<bar>)"
    using assms by (auto split: option.splits simp: abs_mult mult_left_mono)
  with Cons show ?case by simp
qed

text \<open>The sum of a reduce whose lines are amount times a unit price, within the exact range.\<close>

lemma reduce_total_exact:
  assumes pk: "pkos = filter (\<lambda>r. pko_id r \<in> set (map templateId plos)) (packageOptions d)"
    and chk: "checkOptions ev pkos plos = Inr pkg"
    and mag: "magnitude d plos \<le> 2 ^ 53"
    and u: "\<And>pko. \<bar>u pko\<bar> \<le> max \<bar>pko_price pko\<bar> \<bar>minUserPrice pko\<bar>"
    and line: "\<And>pko plo. line pko plo = js_mul (u pko) (amount plo)"
  shows "reduceOptions nm line pkos plos 0 =
     Inr (\<Sum>plo\<leftarrow>plos. case templateOf d plo of None \<Rightarrow> 0 | Some pko \<Rightarrow> amount plo * u pko)"
proof -
  let ?f = "\<lambda>plo. find (\<lambda>pko. pko_id pko = templateId plo) pkos"
  let ?ex = "\<lambda>pko plo. amount plo * u pko"
  have t: "?f plo = templateOf d plo" if "plo \<in> set plos" for plo
    using that unfolding pk templateOf_def by (intro find_loaded) simp
  have s: "(\<Sum>plo\<leftarrow>plos. case ?f plo of None \<Rightarrow> 0 | Some pko \<Rightarrow> h pko plo)
         = (\<Sum>plo\<leftarrow>plos. case templateOf d plo of None \<Rightarrow> 0 | Some pko \<Rightarrow> h pko plo)"
    for h :: "packageOption \<Rightarrow> pledgeOptionInput \<Rightarrow> int"
    unfolding pk by (rule sum_loaded) simp
  have "reduceOptions nm line pkos plos 0 =
     Inr (0 + (\<Sum>plo\<leftarrow>plos. case ?f plo of None \<Rightarrow> 0 | Some pko \<Rightarrow> ?ex pko plo))"
  proof (rule reduceOptions_exact)
    show "?f plo \<noteq> None" if "plo \<in> set plos" for plo
      using that by (rule checkOptions_found [OF chk])
    show "line pko plo = ?ex pko plo" if "plo \<in> set plos" "?f plo = Some pko" for plo pko
    proof -
      from that t have "templateOf d plo = Some pko" by simp
      from line_within_magnitude [OF that(1) this mag] u [of pko]
      have "\<bar>u pko * amount plo\<bar> \<le> 2 ^ 53"
        using product_le_line [of "u pko" "pko_price pko" "minUserPrice pko" "amount plo"]
        by linarith
      then show ?thesis by (simp add: line js_mul_exact mult.commute)
    qed
    have "(\<Sum>plo\<leftarrow>plos. case ?f plo of None \<Rightarrow> 0 | Some pko \<Rightarrow> \<bar>?ex pko plo\<bar>) \<le> magnitude d plos"
      unfolding s by (rule sum_abs_le_magnitude) (rule u)
    with mag show "\<bar>0\<bar> + (\<Sum>plo\<leftarrow>plos. case ?f plo of None \<Rightarrow> 0 | Some pko \<Rightarrow> \<bar>?ex pko plo\<bar>) \<le> 2 ^ 53"
      by simp
  qed
  then show ?thesis by (simp add: s)
qed

lemma minTotal_spec:
  assumes "pkos = filter (\<lambda>r. pko_id r \<in> set (map templateId plos)) (packageOptions d)"
    and "checkOptions ev pkos plos = Inr pkg"
    and "magnitude d plos \<le> 2 ^ 53"
  shows "minTotal pkos plos = Inr (spec_minTotal d plos)"
proof -
  have "reduceOptions ''userPrice''
          (\<lambda>pko plo. if userPrice pko then js_mul (minUserPrice pko) (amount plo)
                      else js_mul (pko_price pko) (amount plo)) pkos plos 0 =
     Inr (\<Sum>plo\<leftarrow>plos. case templateOf d plo of None \<Rightarrow> 0
          | Some pko \<Rightarrow> amount plo * (if userPrice pko then minUserPrice pko else pko_price pko))"
    by (rule reduce_total_exact [OF assms]) auto
  then show ?thesis
    by (simp add: minTotal_def spec_minTotal_def max.commute)
qed

lemma regularTotal_spec:
  assumes "pkos = filter (\<lambda>r. pko_id r \<in> set (map templateId plos)) (packageOptions d)"
    and "checkOptions ev pkos plos = Inr pkg"
    and "magnitude d plos \<le> 2 ^ 53"
  shows "regularTotal pkos plos = Inr (spec_regularTotal d plos)"
proof -
  have "reduceOptions ''price'' (\<lambda>pko plo. js_mul (pko_price pko) (amount plo)) pkos plos 0 =
     Inr (\<Sum>plo\<leftarrow>plos. case templateOf d plo of None \<Rightarrow> 0 | Some pko \<Rightarrow> amount plo * pko_price pko)"
    by (rule reduce_total_exact [OF assms]) auto
  then show ?thesis
    by (simp add: regularTotal_def spec_regularTotal_def max.commute)
qed

subsection \<open>The function by cases of its steps\<close>

lemma submitPledge_pricing_fails:
  "pricing ev d pl = Inl f \<Longrightarrow> submitPledge ev ru pl d = (Inl f, rolledBack d)"
  by (simp add: submitPledge_def body_def transactionBegin_def transactionRollback_def rolledBack_def)

lemma submitPledge_user_throws:
  "pricing ev d pl = Inr (pkg, don) \<Longrightarrow> resolveUser ev ru pl d = (Throw f, w) \<Longrightarrow>
   submitPledge ev ru pl d = (Inl f, rolledBack d)"
  by (simp add: submitPledge_def body_def transactionBegin_def transactionRollback_def rolledBack_def)

lemma submitPledge_user_returns:
  "pricing ev d pl = Inr (pkg, don) \<Longrightarrow> resolveUser ev ru pl d = (Return r, w) \<Longrightarrow>
   submitPledge ev ru pl d = (Inr r, \<lparr>committed = d, working = w, txn = LeftOpen\<rparr>)"
  by (simp add: submitPledge_def body_def transactionBegin_def)

lemma submitPledge_guard_fails:
  "pricing ev d pl = Inr (pkg, don) \<Longrightarrow> resolveUser ev ru pl d = (Next (usr, a), w) \<Longrightarrow>
   reducedPledgeGuard ev don (u_id usr) d w = Inl f \<Longrightarrow>
   submitPledge ev ru pl d = (Inl f, rolledBack d)"
  by (simp add: submitPledge_def body_def transactionBegin_def transactionRollback_def rolledBack_def)

lemma submitPledge_insert_fails:
  "pricing ev d pl = Inr (pkg, don) \<Longrightarrow> resolveUser ev ru pl d = (Next (usr, a), w) \<Longrightarrow>
   reducedPledgeGuard ev don (u_id usr) d w = Inr u \<Longrightarrow>
   insertPledge ev pl pkg don usr w = (Inl f, w') \<Longrightarrow>
   submitPledge ev ru pl d = (Inl f, rolledBack d)"
  by (simp add: submitPledge_def body_def transactionBegin_def transactionRollback_def rolledBack_def)

lemma submitPledge_commit_fails:
  "pricing ev d pl = Inr (pkg, don) \<Longrightarrow> resolveUser ev ru pl d = (Next (usr, a), w) \<Longrightarrow>
   reducedPledgeGuard ev don (u_id usr) d w = Inr u \<Longrightarrow>
   insertPledge ev pl pkg don usr w = (Inr row, w') \<Longrightarrow>
   rejects ev TransactionCommit \<Longrightarrow>
   submitPledge ev ru pl d = (Inl (Crashed (StoreError ''transactionCommit'')), rolledBack d)"
  by (simp add: submitPledge_def body_def transactionBegin_def transactionRollback_def rolledBack_def
        transactionCommit_def)

lemma submitPledge_commits:
  "pricing ev d pl = Inr (pkg, don) \<Longrightarrow> resolveUser ev ru pl d = (Next (usr, a), w) \<Longrightarrow>
   reducedPledgeGuard ev don (u_id usr) d w = Inr u \<Longrightarrow>
   insertPledge ev pl pkg don usr w = (Inr row, w') \<Longrightarrow>
   \<not> rejects ev TransactionCommit \<Longrightarrow>
   submitPledge ev ru pl d =
     (Inr (Created \<lparr>c_pledgeId = p_id row, c_userId = u_id usr,
                     c_pfSHA = postfinanceSHA ev (p_id row) (p_total row) a (u_id usr),
                     c_pfAliasId = a\<rparr>),
      \<lparr>committed = w', working = w', txn = Committed\<rparr>)"
  by (simp add: submitPledge_def body_def transactionBegin_def transactionCommit_def)

lemma pricing_Inr:
  assumes "pricing ev d pl = Inr (pkg, don)"
  shows "\<exists>pkos. loadPackageOptions ev d (options_sub pl) = Inr pkos \<and>
           checkOptions ev pkos (options_sub pl) = Inr pkg \<and>
           checkTotal ev pkos pl = Inr () \<and>
           calcDonation pkos pl = Inr don \<and>
           checkReason ev don pl = Inr ()"
  using assms by (auto simp: pricing_def split: sum.splits)

lemma pricing_donation:
  assumes "pricing ev d pl = Inr (pkg, don)" and "magnitude d (options_sub pl) \<le> 2 ^ 53"
  shows "don = js_sub (total_sub pl) (spec_regularTotal d (options_sub pl))"
    and "spec_minTotal d (options_sub pl) \<le> total_sub pl"
proof -
  from pricing_Inr [OF assms(1)] obtain pkos where
    l: "loadPackageOptions ev d (options_sub pl) = Inr pkos" and
    c: "checkOptions ev pkos (options_sub pl) = Inr pkg" and
    t: "checkTotal ev pkos pl = Inr ()" and
    dn: "calcDonation pkos pl = Inr don" by blast
  note pk = loadPackageOptions_Inr(1) [OF l]
  from regularTotal_spec [OF pk c assms(2)] dn
  show "don = js_sub (total_sub pl) (spec_regularTotal d (options_sub pl))"
    by (simp add: calcDonation_def)
  from minTotal_spec [OF pk c assms(2)] t
  show "spec_minTotal d (options_sub pl) \<le> total_sub pl"
    by (auto simp: checkTotal_def split: if_splits)
qed

lemma updateUserDetails_tables:
  "updateUserDetails ev usr pl w = (s, w') \<Longrightarrow>
   pledges w' = pledges w \<and> pledgeOptions w' = pledgeOptions w \<and>
   packageOptions w' = packageOptions w \<and> paymentSources w' = paymentSources w \<and>
   rewards w' = rewards w"
  by (auto simp: updateUserDetails_def split: if_splits prod.splits option.splits sum.splits)

lemma resolveUser_tables:
  "resolveUser ev ru pl w = (s, w') \<Longrightarrow>
   pledges w' = pledges w \<and> pledgeOptions w' = pledgeOptions w \<and>
   packageOptions w' = packageOptions w \<and> paymentSources w' = paymentSources w \<and>
   rewards w' = rewards w"
  unfolding resolveUser_def
  by (auto simp: Let_def users_insertAndGet_def
           split: option.splits if_splits prod.splits step.splits sum.splits
           dest!: updateUserDetails_tables)

lemma updateUserDetails_Throw:
  "updateUserDetails ev usr pl w = (Throw f, w') \<Longrightarrow> \<exists>e. f = Crashed e"
  by (auto simp: updateUserDetails_def users_updateAndGetOne_def Let_def
           split: if_splits prod.splits option.splits sum.splits)

lemma updateUserDetails_Return:
  "updateUserDetails ev usr pl w \<noteq> (Return r, w')"
  by (auto simp: updateUserDetails_def split: if_splits prod.splits option.splits sum.splits)

lemma resolveUser_Throw:
  "resolveUser ev ru pl w = (Throw f, w') \<Longrightarrow>
   f = Rejected IdentityMismatch (Error (translate ev ''api/unexpected'')) \<or> (\<exists>e. f = Crashed e)"
  unfolding resolveUser_def
  by (auto simp: Let_def users_insertAndGet_def
           split: option.splits if_splits prod.splits step.splits sum.splits
           dest: updateUserDetails_Throw)

lemma resolveUser_Return:
  "resolveUser ev ru pl w = (Return r, w') \<Longrightarrow> r = EmailVerify \<and> w' = w \<and> ru = None"
  unfolding resolveUser_def
  using updateUserDetails_Return
  by (auto simp: Let_def users_insertAndGet_def
           split: option.splits if_splits prod.splits step.splits sum.splits)


lemma reduceOptions_Inl:
  "reduceOptions nm line pkos plos acc = Inl f \<Longrightarrow> f = Crashed (TypeError nm)"
  by (induction plos arbitrary: acc) (auto split: option.splits)

lemma forEachOption_Inl:
  "forEachOption ev pk pkos plos = Inl f \<Longrightarrow>
   f = Crashed (TypeError ''packageId'')
   \<or> f = Rejected CrossPackageSelection (Error (translate ev ''api/unexpected''))
   \<or> f = Rejected AmountOutOfRange (Error (translate ev ''api/unexpected''))"
  by (induction plos) (auto split: option.splits if_splits)

lemma pricing_Inl:
  assumes "pricing ev d pl = Inl f"
  shows "f = Rejected InvalidTemplateReference (Error (translate ev ''api/unexpected''))
       \<or> f = Rejected CrossPackageSelection (Error (translate ev ''api/unexpected''))
       \<or> f = Rejected AmountOutOfRange (Error (translate ev ''api/unexpected''))
       \<or> f = Rejected TotalBelowMinimum (ReferenceError ''total'')
       \<or> (f = Rejected MissingReductionReason (Error (translate ev ''api/unexpected'')) \<and> noReason pl)
       \<or> (\<exists>e. f = Crashed e)"
proof (cases "loadPackageOptions ev d (options_sub pl)")
  case (Inl g)
  with assms show ?thesis
    by (auto simp: pricing_def loadPackageOptions_def packageOptions_find_def Let_def split: if_splits)
next
  case l: (Inr pkos)
  show ?thesis
  proof (cases "checkOptions ev pkos (options_sub pl)")
    case (Inl g)
    with assms l have "f = g" by (simp add: pricing_def)
    with Inl show ?thesis
      by (auto simp: checkOptions_def split: list.splits sum.splits dest: forEachOption_Inl)
  next
    case c: (Inr pkg)
    show ?thesis
    proof (cases "checkTotal ev pkos pl")
      case (Inl g)
      with assms l c have "f = g" by (simp add: pricing_def)
      with Inl show ?thesis
        by (auto simp: checkTotal_def minTotal_def split: sum.splits if_splits dest: reduceOptions_Inl)
    next
      case t: (Inr u)
      show ?thesis
      proof (cases "calcDonation pkos pl")
        case (Inl g)
        with assms l c t have "f = g" by (simp add: pricing_def)
        with Inl show ?thesis
          by (auto simp: calcDonation_def regularTotal_def split: sum.splits dest: reduceOptions_Inl)
      next
        case dn: (Inr don)
        with assms l c t show ?thesis
          by (auto simp: pricing_def checkReason_def split: sum.splits if_splits)
      qed
    qed
  qed
qed

subsection \<open>The guard\<close>

lemma hasTemplatedOption_iff:
  "hasTemplatedOption d uid \<longleftrightarrow> userTemplateRows d uid \<noteq> []"
proof
  assume "hasTemplatedOption d uid"
  then obtain p x k where p: "p \<in> set (pledges d)" "p_userId p = uid"
    and x: "x \<in> set (pledgeOptions d)" "pledgeId x = p_id p"
    and k: "k \<in> set (packageOptions d)" "pko_id k = templateId x"
    unfolding hasTemplatedOption_def by blast
  from p have "p \<in> set (pledges_find (pledges d) uid)"
    by (simp add: pledges_find_def)
  with x have "x \<in> set (userOptionRows d uid)"
    by (simp add: userOptionRows_def)
  with k have "k \<in> set (userTemplateRows d uid)"
    by (simp add: userTemplateRows_def)
  then show "userTemplateRows d uid \<noteq> []" by auto
next
  assume "userTemplateRows d uid \<noteq> []"
  then obtain k where k: "k \<in> set (packageOptions d)"
    and "pko_id k \<in> templateId ` set (userOptionRows d uid)"
    by (auto simp: userTemplateRows_def filter_empty_conv)
  then obtain x where x: "x \<in> set (pledgeOptions d)" "pko_id k = templateId x"
    and "pledgeId x \<in> p_id ` set (pledges_find (pledges d) uid)"
    by (auto simp: userOptionRows_def)
  then obtain p where p: "p \<in> set (pledges d)" "p_userId p = uid" "pledgeId x = p_id p"
    by (auto simp: pledges_find_def)
  from k x p show "hasTemplatedOption d uid"
    unfolding hasTemplatedOption_def by blast
qed

lemma rewardReachable_iff:
  "rewardReachable d uid \<longleftrightarrow> userRewardRows d uid \<noteq> []"
proof
  assume "rewardReachable d uid"
  then obtain p x k r where p: "p \<in> set (pledges d)" "p_userId p = uid"
    and x: "x \<in> set (pledgeOptions d)" "pledgeId x = p_id p"
    and k: "k \<in> set (packageOptions d)" "pko_id k = templateId x"
    and r: "r \<in> set (rewards d)" "pko_rewardId k = Some (r_id r)"
    unfolding rewardReachable_def by blast
  from p have "p \<in> set (pledges_find (pledges d) uid)"
    by (simp add: pledges_find_def)
  with x have "x \<in> set (userOptionRows d uid)"
    by (simp add: userOptionRows_def)
  with k have "k \<in> set (userTemplateRows d uid)"
    by (simp add: userTemplateRows_def)
  with r have "r \<in> set (userRewardRows d uid)"
    by (force simp: userRewardRows_def)
  then show "userRewardRows d uid \<noteq> []" by auto
next
  assume "userRewardRows d uid \<noteq> []"
  then obtain r where r: "r \<in> set (rewards d)"
    and "Some (r_id r) \<in> pko_rewardId ` set (userTemplateRows d uid)"
    by (auto simp: userRewardRows_def filter_empty_conv)
  then obtain k where k: "k \<in> set (packageOptions d)" "pko_rewardId k = Some (r_id r)"
    and "pko_id k \<in> templateId ` set (userOptionRows d uid)"
    by (auto simp: userTemplateRows_def)
  then obtain x where x: "x \<in> set (pledgeOptions d)" "pko_id k = templateId x"
    and "pledgeId x \<in> p_id ` set (pledges_find (pledges d) uid)"
    by (auto simp: userOptionRows_def)
  then obtain p where p: "p \<in> set (pledges d)" "p_userId p = uid" "pledgeId x = p_id p"
    by (auto simp: pledges_find_def)
  from r k x p show "rewardReachable d uid"
    unfolding rewardReachable_def by blast
qed

lemma rewardReachable_templated:
  "rewardReachable d uid \<Longrightarrow> hasTemplatedOption d uid"
  unfolding rewardReachable_def hasTemplatedOption_def by blast

lemma hasTemplatedOption_count:
  "hasTemplatedOption d uid \<Longrightarrow> 0 < pledges_count (pledges d) uid"
  unfolding hasTemplatedOption_def pledges_count_def pledges_find_def
  by (auto simp: filter_empty_conv)

lemma templated_nonempty:
  assumes "userTemplateRows d uid \<noteq> []"
  shows "userOptionRows d uid \<noteq> []" and "pledges_find (pledges d) uid \<noteq> []"
proof -
  from assms show o: "userOptionRows d uid \<noteq> []"
    by (auto simp: userTemplateRows_def filter_empty_conv)
  then show "pledges_find (pledges d) uid \<noteq> []"
    by (auto simp: userOptionRows_def filter_empty_conv)
qed

text \<open>The lookups of the guard: answered when the store takes empty lists, or none is empty.\<close>

lemma reachableRewards_answered:
  assumes "pledges w = pledges d" "pledgeOptions w = pledgeOptions d" "packageOptions w = packageOptions d"
    and "refusesEmptyFind ev \<longrightarrow> hasTemplatedOption d uid"
  shows "reachableRewards ev d w uid = Inr (userRewardRows d uid)"
proof (cases "refusesEmptyFind ev")
  case False
  then show ?thesis
    by (simp add: reachableRewards_def assms(1-3) pledgeOptions_find_def packageOptions_find_def
          rewards_find_def userRewardRows_def userTemplateRows_def userOptionRows_def)
next
  case True
  with assms(4) have t: "userTemplateRows d uid \<noteq> []"
    by (simp add: hasTemplatedOption_iff)
  note n = templated_nonempty [OF t]
  from n(2) have 1: "pledgeOptions_find ev (pledgeOptions d) (map p_id (pledges_find (pledges d) uid))
      = Inr (userOptionRows d uid)"
    by (simp add: pledgeOptions_find_def userOptionRows_def)
  from n(1) have 2: "packageOptions_find ev (packageOptions d) (map templateId (userOptionRows d uid))
      = Inr (userTemplateRows d uid)"
    by (simp add: packageOptions_find_def userTemplateRows_def)
  from t have 3: "rewards_find ev (rewards d) (map pko_rewardId (userTemplateRows d uid))
      = Inr (userRewardRows d uid)"
    by (simp add: rewards_find_def userRewardRows_def)
  show ?thesis
    by (simp add: reachableRewards_def assms(1-3) 1 2 3)
qed

lemma guard_rejects:
  assumes "pledges w = pledges d" "pledgeOptions w = pledgeOptions d" "packageOptions w = packageOptions d"
    and "donation < 0" and "rewardReachable d uid"
  shows "reducedPledgeGuard ev donation uid d w =
     Inl (Rejected ReducedPledgeAlreadyUsed (Error (translate ev ''api/membership/reduced/alreadyHas'')))"
proof -
  from assms(5) have h: "hasTemplatedOption d uid" by (rule rewardReachable_templated)
  then have c: "0 < pledges_count (pledges d) uid" by (rule hasTemplatedOption_count)
  from h have "reachableRewards ev d w uid = Inr (userRewardRows d uid)"
    by (intro reachableRewards_answered assms(1-3)) simp
  moreover from assms(5) have "userRewardRows d uid \<noteq> []"
    by (simp add: rewardReachable_iff)
  ultimately show ?thesis
    using c assms(4) by (simp add: reducedPledgeGuard_def assms(1))
qed

lemma guard_passes:
  assumes "pledges w = pledges d" "pledgeOptions w = pledgeOptions d" "packageOptions w = packageOptions d"
    and "\<not> rewardReachable d uid"
    and "refusesEmptyFind ev \<longrightarrow> hasTemplatedOption d uid"
  shows "reducedPledgeGuard ev donation uid d w = Inr ()"
proof -
  have "reachableRewards ev d w uid = Inr (userRewardRows d uid)"
    by (rule reachableRewards_answered) (rule assms)+
  moreover from assms(4) have "userRewardRows d uid = []"
    by (simp add: rewardReachable_iff)
  ultimately show ?thesis
    by (simp add: reducedPledgeGuard_def)
qed


lemma reachableRewards_Inl:
  "reachableRewards ev d w uid = Inl f \<Longrightarrow> \<exists>e. f = Crashed e"
  by (auto simp: reachableRewards_def pledgeOptions_find_def packageOptions_find_def rewards_find_def
           Let_def split: sum.splits if_splits)

lemma reducedPledgeGuard_Inl:
  assumes "pledges w = pledges d" "pledgeOptions w = pledgeOptions d" "packageOptions w = packageOptions d"
    and "reducedPledgeGuard ev don uid d w = Inl f"
  shows "(f = Rejected ReducedPledgeAlreadyUsed (Error (translate ev ''api/membership/reduced/alreadyHas''))
          \<and> don < 0 \<and> rewardReachable d uid)
       \<or> (\<exists>e. f = Crashed e)"
proof (cases "rewardReachable d uid \<and> don < 0")
  case True
  with guard_rejects [OF assms(1-3), of don uid ev] assms(4) show ?thesis by simp
next
  case False
  show ?thesis
  proof (cases "reachableRewards ev d w uid")
    case (Inl g)
    with assms(4) reachableRewards_Inl [OF Inl] show ?thesis
      by (auto simp: reducedPledgeGuard_def split: if_splits)
  next
    case (Inr rs)
    show ?thesis
    proof (cases "don < 0")
      case dn: True
      with False have nr: "\<not> rewardReachable d uid" by simp
      have "refusesEmptyFind ev \<longrightarrow> hasTemplatedOption d uid"
      proof
        assume r: "refusesEmptyFind ev"
        show "hasTemplatedOption d uid"
        proof (rule ccontr)
          assume "\<not> hasTemplatedOption d uid"
          then have "userTemplateRows d uid = []" by (simp add: hasTemplatedOption_iff)
          with r Inr show False
            by (auto simp: reachableRewards_def assms(1-3) pledgeOptions_find_def
                  packageOptions_find_def rewards_find_def userTemplateRows_def userOptionRows_def
                  Let_def split: sum.splits if_splits)
        qed
      qed
      from guard_passes [OF assms(1-3) nr this, of don] assms(4) show ?thesis by simp
    next
      case False
      with assms(4) show ?thesis by (simp add: reducedPledgeGuard_def)
    qed
  qed
qed

subsection \<open>The inserted rows and the failures of a run\<close>

lemma insertPledgeOptions_Inr:
  "insertPledgeOptions ev pid i plos tbl = (Inr rows, tbl') \<Longrightarrow> tbl' = tbl @ optionRows pid plos"
proof (induction plos arbitrary: tbl i rows)
  case Nil
  then show ?case by (simp add: optionRows_def)
next
  case (Cons plo rest)
  let ?row = "\<lparr>templateId = templateId plo, amount = amount plo, plo_price = plo_price plo,
               pledgeId = pid\<rparr>"
  from Cons.prems obtain rows' where
    "insertPledgeOptions ev pid (Suc i) rest (tbl @ [?row]) = (Inr rows', tbl')"
    by (auto simp: pledgeOptions_insertAndGet_def split: sum.splits prod.splits if_splits)
  from Cons.IH [OF this] show ?case by (simp add: optionRows_def)
qed

lemma insertPledgeOptions_Inl:
  "insertPledgeOptions ev pid i plos tbl = (Inl f, tbl') \<Longrightarrow>
   f = Crashed (StoreError ''pledgeOptions.insertAndGet'')"
  by (induction plos arbitrary: tbl i)
     (auto simp: pledgeOptions_insertAndGet_def split: sum.splits prod.splits if_splits)

lemma insertPledgeOptions_accepted:
  "(\<And>j. \<not> rejects ev (PledgeOptionsInsert j)) \<Longrightarrow>
   insertPledgeOptions ev pid i plos tbl = (Inr (optionRows pid plos), tbl @ optionRows pid plos)"
  by (induction plos arbitrary: tbl i)
     (auto simp: pledgeOptions_insertAndGet_def optionRows_def)

lemma insertPledge_Inr:
  assumes "insertPledge ev pl pkg don usr w = (Inr row, w')"
  shows "row = \<lparr>p_id = newPledgeId ev, p_userId = u_id usr, p_packageId = pkg,
                p_total = total_sub pl, p_donation = don, p_reason = reason pl,
                p_status = ''DRAFT''\<rparr>"
    and "w' = w\<lparr>pledges := pledges w @ [row],
               pledgeOptions := pledgeOptions w @ optionRows (newPledgeId ev) (options_sub pl)\<rparr>"
  using assms
  by (auto simp: insertPledge_def pledges_insertAndGet_def
           split: sum.splits prod.splits if_splits dest: insertPledgeOptions_Inr)

lemma insertPledge_Inl:
  "insertPledge ev pl pkg don usr w = (Inl f, w') \<Longrightarrow> \<exists>e. f = Crashed e"
  by (auto simp: insertPledge_def pledges_insertAndGet_def
           split: sum.splits prod.splits if_splits dest: insertPledgeOptions_Inl)

lemma insertPledge_accepted:
  assumes "\<not> rejects ev PledgesInsert" and "\<And>j. \<not> rejects ev (PledgeOptionsInsert j)"
  shows "insertPledge ev pl pkg don usr w =
     (Inr \<lparr>p_id = newPledgeId ev, p_userId = u_id usr, p_packageId = pkg,
           p_total = total_sub pl, p_donation = don, p_reason = reason pl, p_status = ''DRAFT''\<rparr>,
      w\<lparr>pledges := pledges w @ [\<lparr>p_id = newPledgeId ev, p_userId = u_id usr, p_packageId = pkg,
           p_total = total_sub pl, p_donation = don, p_reason = reason pl, p_status = ''DRAFT''\<rparr>],
        pledgeOptions := pledgeOptions w @ optionRows (newPledgeId ev) (options_sub pl)\<rparr>)"
  using assms(1) insertPledgeOptions_accepted [of ev, OF assms(2)]
  by (simp add: insertPledge_def pledges_insertAndGet_def)

text \<open>A run that passes the guard while the store rejects no write ends committed.\<close>

lemma submitPledge_accepted:
  assumes "pricing ev d pl = Inr (pkg, don)"
    and "resolveUser ev ru pl d = (Next (usr, a), w)"
    and "reducedPledgeGuard ev don (u_id usr) d w = Inr u"
    and "\<And>c. \<not> rejects ev c"
  shows "submitPledge ev ru pl d =
     (Inr (Created \<lparr>c_pledgeId = newPledgeId ev, c_userId = u_id usr,
                     c_pfSHA = postfinanceSHA ev (newPledgeId ev) (total_sub pl) a (u_id usr),
                     c_pfAliasId = a\<rparr>),
      \<lparr>committed = w\<lparr>pledges := pledges w @ [\<lparr>p_id = newPledgeId ev, p_userId = u_id usr,
                          p_packageId = pkg, p_total = total_sub pl, p_donation = don,
                          p_reason = reason pl, p_status = ''DRAFT''\<rparr>],
                        pledgeOptions := pledgeOptions w @ optionRows (newPledgeId ev) (options_sub pl)\<rparr>,
       working = w\<lparr>pledges := pledges w @ [\<lparr>p_id = newPledgeId ev, p_userId = u_id usr,
                          p_packageId = pkg, p_total = total_sub pl, p_donation = don,
                          p_reason = reason pl, p_status = ''DRAFT''\<rparr>],
                        pledgeOptions := pledgeOptions w @ optionRows (newPledgeId ev) (options_sub pl)\<rparr>,
       txn = Committed\<rparr>)"
proof -
  note ins = insertPledge_accepted [of ev pl pkg don usr w, OF assms(4) assms(4)]
  from submitPledge_commits [OF assms(1-3) ins assms(4)] show ?thesis by simp
qed

text \<open>Where a failure of the function can come from.\<close>

lemma submitPledge_Inl:
  assumes "fst (submitPledge ev ru pl d) = Inl f"
  shows "pricing ev d pl = Inl f
       \<or> f = Rejected IdentityMismatch (Error (translate ev ''api/unexpected''))
       \<or> (f = Rejected ReducedPledgeAlreadyUsed (Error (translate ev ''api/membership/reduced/alreadyHas''))
           \<and> (\<exists>usr a w. resolveUser ev ru pl d = (Next (usr, a), w) \<and> rewardReachable d (u_id usr)))
       \<or> (\<exists>e. f = Crashed e)"
proof (cases "pricing ev d pl")
  case (Inl g)
  from submitPledge_pricing_fails [OF Inl, of ru] assms have "f = g" by simp
  with Inl show ?thesis by simp
next
  case (Inr pd)
  obtain pkg don where pd: "pd = (pkg, don)" by (cases pd)
  note p = Inr [unfolded pd]
  obtain s w where r: "resolveUser ev ru pl d = (s, w)"
    by (cases "resolveUser ev ru pl d")
  note tb = resolveUser_tables [OF r]
  show ?thesis
  proof (cases s)
    case (Throw g)
    from submitPledge_user_throws [OF p r [unfolded Throw]] resolveUser_Throw [OF r [unfolded Throw]] assms
    show ?thesis by auto
  next
    case (Return x)
    from submitPledge_user_returns [OF p r [unfolded Return]] assms show ?thesis by simp
  next
    case (Next ua)
    obtain usr a where ua: "ua = (usr, a)" by (cases ua)
    note r' = r [unfolded Next ua]
    show ?thesis
    proof (cases "reducedPledgeGuard ev don (u_id usr) d w")
      case (Inl g)
      from submitPledge_guard_fails [OF p r' Inl] assms have "f = g" by simp
      with reducedPledgeGuard_Inl [OF _ _ _ Inl] tb r' show ?thesis by auto
    next
      case g: (Inr u)
      obtain res w' where ins: "insertPledge ev pl pkg don usr w = (res, w')"
        by (cases "insertPledge ev pl pkg don usr w")
      show ?thesis
      proof (cases res)
        case (Inl h)
        from submitPledge_insert_fails [OF p r' g ins [unfolded Inl]] insertPledge_Inl [OF ins [unfolded Inl]] assms
        show ?thesis by auto
      next
        case (Inr row)
        show ?thesis
        proof (cases "rejects ev TransactionCommit")
          case True
          from submitPledge_commit_fails [OF p r' g ins [unfolded Inr] True] assms show ?thesis by auto
        next
          case False
          from submitPledge_commits [OF p r' g ins [unfolded Inr] False] assms show ?thesis by simp
        qed
      qed
    qed
  qed
qed

subsection \<open>What the checks decide\<close>

text \<open>With a maximum of at least 1 the amount check accepts every amount.\<close>

lemma chained_le_positive_max:
  "1 \<le> c \<Longrightarrow> chained_le a b c"
  by (simp add: chained_le_def)

text \<open>
  The template check refuses exactly when fewer rows are found than options were
  submitted; fewer rows than distinct template ids is one way for that to happen.
\<close>

lemma loadPackageOptions_refuses_iff:
  assumes "packageOptions_find ev (packageOptions d) (map templateId plos) = Inr pkos"
  shows "(\<exists>f. loadPackageOptions ev d plos = Inl f) \<longleftrightarrow> length pkos < length plos"
  using assms by (simp add: loadPackageOptions_def Let_def)

lemma fewer_than_distinct_refused:
  assumes "packageOptions_find ev (packageOptions d) (map templateId plos) = Inr pkos"
    and "length pkos < length (remdups (map templateId plos))"
  shows "loadPackageOptions ev d plos =
           Inl (Rejected InvalidTemplateReference (Error (translate ev ''api/unexpected'')))"
  using assms length_remdups_leq [of "map templateId plos"]
  by (simp add: loadPackageOptions_def Let_def)

text \<open>
  What reaches the caller when a check refuses: the reference error from the check of the
  total, the message of its own from the guard of reduced pledges, and the message of
  \<^verbatim>\<open>api/unexpected\<close> from every other check.
\<close>

lemma rejections_surface:
  assumes "fst (submitPledge ev ru pl d) = Inl (Rejected c e)"
  shows "(c = TotalBelowMinimum \<and> e = ReferenceError ''total'')
       \<or> (c = ReducedPledgeAlreadyUsed \<and> e = Error (translate ev ''api/membership/reduced/alreadyHas''))
       \<or> (c \<noteq> TotalBelowMinimum \<and> c \<noteq> ReducedPledgeAlreadyUsed \<and> e = Error (translate ev ''api/unexpected''))"
  using submitPledge_Inl [OF assms] pricing_Inl [of ev d pl "Rejected c e"]
  by auto

section \<open>The claims\<close>

text \<open>
  C1. The claim: a submission fails with \<open>AmountOutOfRange\<close> when an option's amount is
  below \<open>minAmount\<close> or above \<open>maxAmount\<close> of its template. The function writes the check
  as \<^verbatim>\<open>minAmount <= amount <= maxAmount\<close>, which compares the boolean of the first
  comparison with \<open>maxAmount\<close>: with a maximum of at least 1 no amount is refused
  (\<open>chained_le_positive_max\<close>). Six pieces of template A (at most 5) and no piece of it
  (at least 1) both pass the loop over the options, and the submissions are committed.
\<close>

theorem amount_out_of_range_accepted:
  "minAmount tplA = 1 \<and> maxAmount tplA = 5 \<and> map amount sixA = [6] \<and> map amount zeroA = [0] \<and>
   forEachOption ex_env ''P'' [tplA] sixA = Inr () \<and>
   forEachOption ex_env ''P'' [tplA] zeroA = Inr () \<and>
   fst (submitPledge ex_env None (submission carol sixA 6000 None) ex_db) =
     Inr (Created \<lparr>c_pledgeId = ''p9'', c_userId = ''u9'', c_pfSHA = ''p9alias9u9'',
                    c_pfAliasId = ''alias9''\<rparr>) \<and>
   pledgeOptions (committed (snd (submitPledge ex_env None (submission carol sixA 6000 None) ex_db))) =
     pledgeOptions ex_db @ [\<lparr>templateId = ''A'', amount = 6, plo_price = 1000, pledgeId = ''p9''\<rparr>] \<and>
   fst (submitPledge ex_env None (submission carol zeroA 100 None) ex_db) =
     Inr (Created \<lparr>c_pledgeId = ''p9'', c_userId = ''u9'', c_pfSHA = ''p9alias9u9'',
                    c_pfAliasId = ''alias9''\<rparr>)"
  by code_simp



text \<open>
  C3. The claim: for every submission that passes the template and amount checks the
  computed minimum total equals the maximum of 100 and the sum over the options of the
  amount times the template's \<open>minUserPrice\<close> or \<open>price\<close>, and the total check refuses
  exactly the totals below it. The function sums in doubles: with a price of 2147483647
  and the amounts 2147483647 and -2147483646 the two products lose their low bits, the
  computed minimum is 2147483648 where the sum is 2147483647, and a total of 2147483647
  is refused.
\<close>

theorem minTotal_rounding_counterexample:
  "loadPackageOptions ex_env big_db (options_sub (submission carol bigG 2147483647 None))
     = Inr [tplG1, tplG2] \<and>
   checkOptions ex_env [tplG1, tplG2] (options_sub (submission carol bigG 2147483647 None)) = Inr ''Q'' \<and>
   spec_minTotal big_db (options_sub (submission carol bigG 2147483647 None)) = 2147483647 \<and>
   minTotal [tplG1, tplG2] (options_sub (submission carol bigG 2147483647 None)) = Inr 2147483648 \<and>
   \<not> total_sub (submission carol bigG 2147483647 None)
       < spec_minTotal big_db (options_sub (submission carol bigG 2147483647 None)) \<and>
   fst (submitPledge ex_env None (submission carol bigG 2147483647 None) big_db) =
     Inl (Rejected TotalBelowMinimum (ReferenceError ''total''))"
  by code_simp

text \<open>
  C3, amended. For a submission whose templates were all loaded, whose options passed the
  loop of the package and amount checks, and whose lines stay within the integers a
  double holds exactly (the sum over the options of the magnitude of the amount times the
  larger magnitude of the template's \<open>price\<close> and \<open>minUserPrice\<close> is at most \<open>2^53\<close>): the
  minimum total the function computes is the maximum of 100 and the sum over the options
  of the amount times the template's \<open>minUserPrice\<close> (with the \<open>userPrice\<close> flag) or
  \<open>price\<close> (without), and the submission is rejected by the check of the total exactly
  when the submitted total is below that minimum. (The exception that leaves this branch
  is the subject of C9.)
\<close>

theorem minTotal_check:
  assumes "loadPackageOptions ev d (options_sub pledge) = Inr pkos"
    and "checkOptions ev pkos (options_sub pledge) = Inr packageId"
    and "magnitude d (options_sub pledge) \<le> 2 ^ 53"
  shows "minTotal pkos (options_sub pledge) = Inr (spec_minTotal d (options_sub pledge)) \<and>
         ((\<exists>e. fst (submitPledge ev req_user pledge d) = Inl (Rejected TotalBelowMinimum e))
            \<longleftrightarrow> total_sub pledge < spec_minTotal d (options_sub pledge))"
proof -
  let ?plos = "options_sub pledge"
  note pk = loadPackageOptions_Inr(1) [OF assms(1)]
  have m: "minTotal pkos ?plos = Inr (spec_minTotal d ?plos)"
    by (rule minTotal_spec [OF pk assms(2,3)])
  show ?thesis
  proof (cases "total_sub pledge < spec_minTotal d ?plos")
    case True
    with m have "checkTotal ev pkos pledge = Inl (Rejected TotalBelowMinimum (ReferenceError ''total''))"
      by (simp add: checkTotal_def)
    with assms have "pricing ev d pledge = Inl (Rejected TotalBelowMinimum (ReferenceError ''total''))"
      by (simp add: pricing_def)
    from submitPledge_pricing_fails [OF this, of req_user] m True show ?thesis by simp
  next
    case False
    with m have t: "checkTotal ev pkos pledge = Inr ()"
      by (simp add: checkTotal_def)
    have "fst (submitPledge ev req_user pledge d) \<noteq> Inl (Rejected TotalBelowMinimum e)" for e
    proof
      assume a: "fst (submitPledge ev req_user pledge d) = Inl (Rejected TotalBelowMinimum e)"
      have "pricing ev d pledge \<noteq> Inl (Rejected TotalBelowMinimum e)"
        using assms(1,2) t
        by (auto simp: pricing_def calcDonation_def regularTotal_def checkReason_def
                 split: sum.splits if_splits dest: reduceOptions_Inl)
      with submitPledge_Inl [OF a] show False by simp
    qed
    with m False show ?thesis by simp
  qed
qed

theorem minTotal_check_witness:
  "loadPackageOptions ex_env ex_db (options_sub (submission carol oneA 50 None)) = Inr [tplA] \<and>
   checkOptions ex_env [tplA] (options_sub (submission carol oneA 50 None)) = Inr ''P'' \<and>
   magnitude ex_db (options_sub (submission carol oneA 50 None)) \<le> 2 ^ 53 \<and>
   spec_minTotal ex_db (options_sub (submission carol oneA 50 None)) = 800 \<and>
   minTotal [tplA] (options_sub (submission carol oneA 50 None)) = Inr 800 \<and>
   (\<exists>e. fst (submitPledge ex_env None (submission carol oneA 50 None) ex_db) =
          Inl (Rejected TotalBelowMinimum e))"
proof -
  have l: "loadPackageOptions ex_env ex_db (options_sub (submission carol oneA 50 None)) = Inr [tplA]"
    by code_simp
  have c: "checkOptions ex_env [tplA] (options_sub (submission carol oneA 50 None)) = Inr ''P''"
    by code_simp
  have g: "magnitude ex_db (options_sub (submission carol oneA 50 None)) \<le> 2 ^ 53"
    by code_simp
  have m: "spec_minTotal ex_db (options_sub (submission carol oneA 50 None)) = 800"
    by code_simp
  have t: "total_sub (submission carol oneA 50 None) = 50"
    by code_simp
  from minTotal_check [OF l c g, of None] l c g m t show ?thesis by simp
qed

text \<open>
  C4. The claim: the submission fails with \<open>InvalidTemplateReference\<close> exactly when fewer
  templates are found than there are distinct template ids, so that options which all
  name existing templates pass. The function compares the number of rows found with the
  number of submitted options (\<open>loadPackageOptions_refuses_iff\<close>). Two options that
  both name the existing template A find one row for one distinct id, and the submission
  is refused as naming an invalid template.
\<close>

theorem duplicate_template_refused:
  "map (templateOf ex_db) twiceA = [Some tplA, Some tplA] \<and>
   packageOptions_find ex_env (packageOptions ex_db) (map templateId twiceA) = Inr [tplA] \<and>
   remdups (map templateId twiceA) = [''A''] \<and>
   submitPledge ex_env None (submission carol twiceA 2000 None) ex_db =
     (Inl (Rejected InvalidTemplateReference (Error ''api/unexpected'')), rolledBack ex_db)"
  by code_simp

text \<open>
  C5. The claim: for every submission that passes validation the regular total equals the
  maximum of 100 and the sum over the options of the amount times the template's price,
  and the committed pledge row records the total minus it as donation. The function sums
  in doubles: with a price of 2147483647 and the amounts 2147483647 and -2147483646 the
  computed regular total is 2147483648 where the sum is 2147483647, and the committed
  row records a donation of -1 for a total of 2147483647.
\<close>

theorem donation_rounding_counterexample:
  "pricing ex_env big_db (submission carol bigH 2147483647 (Some ''student'')) = Inr (''Q'', - 1) \<and>
   regularTotal [tplH1, tplH2] (options_sub (submission carol bigH 2147483647 (Some ''student'')))
     = Inr 2147483648 \<and>
   spec_regularTotal big_db (options_sub (submission carol bigH 2147483647 (Some ''student'')))
     = 2147483647 \<and>
   total_sub (submission carol bigH 2147483647 (Some ''student''))
     - spec_regularTotal big_db (options_sub (submission carol bigH 2147483647 (Some ''student''))) = 0 \<and>
   fst (submitPledge ex_env None (submission carol bigH 2147483647 (Some ''student'')) big_db) =
     Inr (Created \<lparr>c_pledgeId = ''p9'', c_userId = ''u9'', c_pfSHA = ''p9alias9u9'',
                    c_pfAliasId = ''alias9''\<rparr>) \<and>
   map p_donation (pledges (committed (snd (submitPledge ex_env None
       (submission carol bigH 2147483647 (Some ''student'')) big_db)))) = [- 1]"
  by code_simp

text \<open>
  C5, amended. For a submission that passes the validation of lines 12 to 70 and whose
  numbers stay within the integers a double holds exactly (the sum over the options of
  the magnitude of the amount times the larger magnitude of the template's \<open>price\<close> and
  \<open>minUserPrice\<close>, and the magnitude of the total minus the regular total, are at most
  \<open>2^53\<close>): the regular total the function computes is the maximum of 100 and the sum over
  the options of the amount times the template's price, the donation is the submitted
  total minus that regular total, and when the submission is committed the new pledge row
  carries the submitted total and this donation.
\<close>

theorem donation_recorded:
  assumes "pricing ev d pledge = Inr (packageId, donation)"
    and "magnitude d (options_sub pledge) \<le> 2 ^ 53"
    and "\<bar>total_sub pledge - spec_regularTotal d (options_sub pledge)\<bar> \<le> 2 ^ 53"
  shows "(\<exists>pkos. loadPackageOptions ev d (options_sub pledge) = Inr pkos \<and>
            regularTotal pkos (options_sub pledge) = Inr (spec_regularTotal d (options_sub pledge))) \<and>
         donation = total_sub pledge - spec_regularTotal d (options_sub pledge) \<and>
         (\<forall>r. fst (submitPledge ev req_user pledge d) = Inr (Created r) \<longrightarrow>
            (\<exists>row. pledges (committed (snd (submitPledge ev req_user pledge d))) = pledges d @ [row] \<and>
                   txn (snd (submitPledge ev req_user pledge d)) = Committed \<and>
                   p_id row = c_pledgeId r \<and> p_userId row = c_userId r \<and>
                   p_total row = total_sub pledge \<and> p_donation row = donation))"
proof (intro conjI allI impI)
  let ?plos = "options_sub pledge"
  from pricing_Inr [OF assms(1)] obtain pkos where
    l: "loadPackageOptions ev d ?plos = Inr pkos" and
    c: "checkOptions ev pkos ?plos = Inr packageId" by blast
  note pk = loadPackageOptions_Inr(1) [OF l]
  from regularTotal_spec [OF pk c assms(2)] l
  show "\<exists>pkos. loadPackageOptions ev d ?plos = Inr pkos \<and>
            regularTotal pkos ?plos = Inr (spec_regularTotal d ?plos)"
    by blast
  from pricing_donation(1) [OF assms(1,2)] assms(3)
  show "donation = total_sub pledge - spec_regularTotal d ?plos"
    by (simp add: js_sub_exact)
next
  fix r
  assume ok: "fst (submitPledge ev req_user pledge d) = Inr (Created r)"
  obtain s w where ru: "resolveUser ev req_user pledge d = (s, w)"
    by (cases "resolveUser ev req_user pledge d")
  show "\<exists>row. pledges (committed (snd (submitPledge ev req_user pledge d))) = pledges d @ [row] \<and>
              txn (snd (submitPledge ev req_user pledge d)) = Committed \<and>
              p_id row = c_pledgeId r \<and> p_userId row = c_userId r \<and>
              p_total row = total_sub pledge \<and> p_donation row = donation"
  proof (cases s)
    case (Throw f)
    from submitPledge_user_throws [OF assms(1) ru [unfolded Throw]] ok show ?thesis by simp
  next
    case (Return x)
    from resolveUser_Return [OF ru [unfolded Return]]
      submitPledge_user_returns [OF assms(1) ru [unfolded Return]] ok
    show ?thesis by simp
  next
    case (Next ua)
    obtain usr a where ua: "ua = (usr, a)" by (cases ua)
    note ru' = ru [unfolded Next ua]
    show ?thesis
    proof (cases "reducedPledgeGuard ev donation (u_id usr) d w")
      case (Inl f)
      from submitPledge_guard_fails [OF assms(1) ru' Inl] ok show ?thesis by simp
    next
      case g: (Inr u)
      obtain res w' where ins: "insertPledge ev pledge packageId donation usr w = (res, w')"
        by (cases "insertPledge ev pledge packageId donation usr w")
      show ?thesis
      proof (cases res)
        case (Inl f)
        from submitPledge_insert_fails [OF assms(1) ru' g ins [unfolded Inl]] ok show ?thesis by simp
      next
        case (Inr row)
        note ins' = ins [unfolded Inr]
        show ?thesis
        proof (cases "rejects ev TransactionCommit")
          case True
          from submitPledge_commit_fails [OF assms(1) ru' g ins' True] ok show ?thesis by simp
        next
          case False
          note sp = submitPledge_commits [OF assms(1) ru' g ins' False]
          from resolveUser_tables [OF ru] have pw: "pledges w = pledges d" by simp
          from sp ok have r: "c_pledgeId r = p_id row" "c_userId r = u_id usr"
            by auto
          from insertPledge_Inr(1) [OF ins'] have row: "p_userId row = u_id usr"
            "p_total row = total_sub pledge" "p_donation row = donation"
            by simp_all
          have "pledges (committed (snd (submitPledge ev req_user pledge d))) = pledges d @ [row]"
            using insertPledge_Inr(2) [OF ins'] by (simp add: sp pw)
          moreover have "txn (snd (submitPledge ev req_user pledge d)) = Committed"
            by (simp add: sp)
          ultimately show ?thesis
            using r row by simp
        qed
      qed
    qed
  qed
qed

text \<open>
  The example of the specification: three pieces of A and one of B for a total of 3500
  give a regular total of 3500 and a donation of 0 on the committed row.
\<close>

theorem donation_recorded_witness:
  "pricing ex_env ex_db (submission carol threeA_oneB 3500 None) = Inr (''P'', 0) \<and>
   magnitude ex_db (options_sub (submission carol threeA_oneB 3500 None)) \<le> 2 ^ 53 \<and>
   \<bar>total_sub (submission carol threeA_oneB 3500 None)
      - spec_regularTotal ex_db (options_sub (submission carol threeA_oneB 3500 None))\<bar> \<le> 2 ^ 53 \<and>
   fst (submitPledge ex_env None (submission carol threeA_oneB 3500 None) ex_db) =
     Inr (Created \<lparr>c_pledgeId = ''p9'', c_userId = ''u9'', c_pfSHA = ''p9alias9u9'',
                    c_pfAliasId = ''alias9''\<rparr>) \<and>
   spec_regularTotal ex_db (options_sub (submission carol threeA_oneB 3500 None)) = 3500 \<and>
   (\<exists>row. pledges (committed (snd (submitPledge ex_env None (submission carol threeA_oneB 3500 None) ex_db)))
            = pledges ex_db @ [row] \<and>
          txn (snd (submitPledge ex_env None (submission carol threeA_oneB 3500 None) ex_db)) = Committed \<and>
          p_id row = ''p9'' \<and> p_userId row = ''u9'' \<and> p_total row = 3500 \<and> p_donation row = 0)"
proof -
  have p: "pricing ex_env ex_db (submission carol threeA_oneB 3500 None) = Inr (''P'', 0)"
    by code_simp
  have g: "magnitude ex_db (options_sub (submission carol threeA_oneB 3500 None)) \<le> 2 ^ 53"
    by code_simp
  have b: "\<bar>total_sub (submission carol threeA_oneB 3500 None)
      - spec_regularTotal ex_db (options_sub (submission carol threeA_oneB 3500 None))\<bar> \<le> 2 ^ 53"
    by code_simp
  have s: "fst (submitPledge ex_env None (submission carol threeA_oneB 3500 None) ex_db) =
     Inr (Created \<lparr>c_pledgeId = ''p9'', c_userId = ''u9'', c_pfSHA = ''p9alias9u9'',
                    c_pfAliasId = ''alias9''\<rparr>)"
    by code_simp
  have t: "total_sub (submission carol threeA_oneB 3500 None) = 3500"
    by code_simp
  have v: "spec_regularTotal ex_db (options_sub (submission carol threeA_oneB 3500 None)) = 3500"
    by code_simp
  from donation_recorded [OF p g b, of None] s t
  have "\<exists>row. pledges (committed (snd (submitPledge ex_env None (submission carol threeA_oneB 3500 None) ex_db)))
            = pledges ex_db @ [row] \<and>
          txn (snd (submitPledge ex_env None (submission carol threeA_oneB 3500 None) ex_db)) = Committed \<and>
          p_id row = ''p9'' \<and> p_userId row = ''u9'' \<and> p_total row = 3500 \<and> p_donation row = 0"
    by auto
  with p g b s v show ?thesis by blast
qed




text \<open>
  C7. The claim: every submission without a session whose e-mail address belongs to a user
  with a pledge returns the request to verify the address. The validation of the options
  comes first: such a submission that names an unknown template fails before the user is
  looked up.
\<close>

theorem email_verify_counterexample:
  "users_findOne (users ex_db) (email (user_sub (submission alicia oneZ 1000 None))) = Some alice \<and>
   0 < pledges_count (pledges ex_db) (u_id alice) \<and>
   submitPledge ex_env None (submission alicia oneZ 1000 None) ex_db =
     (Inl (Rejected InvalidTemplateReference (Error ''api/unexpected'')), rolledBack ex_db)"
  by code_simp

text \<open>
  C7, amended. A submission without a session that has passed the validation of lines 12
  to 70 and whose e-mail address belongs to a user with at least one pledge returns the
  request to verify the address, without a row written to the users, the pledges or the
  options of pledges and without a commit.
\<close>

theorem email_verify:
  assumes "pricing ev d pledge = Inr (packageId, donation)"
    and "users_findOne (users d) (email (user_sub pledge)) = Some u"
    and "0 < pledges_count (pledges d) (u_id u)"
  shows "fst (submitPledge ev None pledge d) = Inr EmailVerify \<and>
         working (snd (submitPledge ev None pledge d)) = d \<and>
         committed (snd (submitPledge ev None pledge d)) = d \<and>
         txn (snd (submitPledge ev None pledge d)) \<noteq> Committed"
proof -
  from assms(2,3) have "resolveUser ev None pledge d = (Return EmailVerify, d)"
    by (simp add: resolveUser_def)
  from submitPledge_user_returns [OF assms(1) this] show ?thesis by simp
qed

theorem email_verify_witness:
  "pricing ex_env ex_db (submission alicia oneA 1000 None) = Inr (''P'', 0) \<and>
   users_findOne (users ex_db) (email (user_sub (submission alicia oneA 1000 None))) = Some alice \<and>
   0 < pledges_count (pledges ex_db) (u_id alice) \<and>
   fst (submitPledge ex_env None (submission alicia oneA 1000 None) ex_db) = Inr EmailVerify \<and>
   working (snd (submitPledge ex_env None (submission alicia oneA 1000 None) ex_db)) = ex_db \<and>
   committed (snd (submitPledge ex_env None (submission alicia oneA 1000 None) ex_db)) = ex_db \<and>
   txn (snd (submitPledge ex_env None (submission alicia oneA 1000 None) ex_db)) \<noteq> Committed"
proof -
  have p: "pricing ex_env ex_db (submission alicia oneA 1000 None) = Inr (''P'', 0)"
    by code_simp
  have f: "users_findOne (users ex_db) (email (user_sub (submission alicia oneA 1000 None))) = Some alice"
    by code_simp
  have c: "0 < pledges_count (pledges ex_db) (u_id alice)"
    by code_simp
  from email_verify [OF p f c] p f c show ?thesis by blast
qed



text \<open>
  C9. The claim: every validation failure reaches the caller as the one message of
  \<^verbatim>\<open>api/unexpected\<close>. In the branch of a total below the minimum the function builds its
  log message from the undeclared variable \<^verbatim>\<open>total\<close>, so that the caller receives the
  reference error of that variable and not the error with the translated message
  (\<open>rejections_surface\<close> lists what every check lets through to the caller).
\<close>

theorem total_below_minimum_surfaces_reference_error:
  "translate ex_env ''api/unexpected'' = ''api/unexpected'' \<and>
   submitPledge ex_env None (submission carol oneA 50 None) ex_db =
     (Inl (Rejected TotalBelowMinimum (ReferenceError ''total'')), rolledBack ex_db) \<and>
   thrown (Rejected TotalBelowMinimum (ReferenceError ''total''))
     \<noteq> Error (translate ex_env ''api/unexpected'')"
  by code_simp

text \<open>
  C10. A submission without options fails and the rows stay as they were: either the
  store refuses to look templates up by an empty list of ids, or no template is loaded
  and reading the package of the first template throws.
\<close>

theorem empty_options_fail:
  assumes "options_sub pledge = []"
  shows "submitPledge ev req_user pledge d =
           (Inl (Crashed (if refusesEmptyFind ev then StoreError ''packageOptions.find''
                          else TypeError ''packageId'')), rolledBack d)"
proof -
  from assms have "pricing ev d pledge =
      Inl (Crashed (if refusesEmptyFind ev then StoreError ''packageOptions.find''
                    else TypeError ''packageId''))"
    by (simp add: pricing_def loadPackageOptions_def packageOptions_find_def checkOptions_def)
  then show ?thesis by (rule submitPledge_pricing_fails)
qed

theorem empty_options_fail_witness:
  "options_sub (submission carol [] 100 None) = [] \<and>
   submitPledge ex_env None (submission carol [] 100 None) ex_db =
     (Inl (Crashed (StoreError ''packageOptions.find'')), rolledBack ex_db) \<and>
   submitPledge (ex_env\<lparr>refusesEmptyFind := False\<rparr>) None (submission carol [] 100 None) ex_db =
     (Inl (Crashed (TypeError ''packageId'')), rolledBack ex_db)"
proof -
  have h: "options_sub (submission carol [] 100 None) = []"
    by (simp add: submission_def)
  have r: "refusesEmptyFind ex_env" "\<not> refusesEmptyFind (ex_env\<lparr>refusesEmptyFind := False\<rparr>)"
    by (simp_all add: ex_env_def)
  from empty_options_fail [OF h, of ex_env None ex_db]
    empty_options_fail [OF h, of "ex_env\<lparr>refusesEmptyFind := False\<rparr>" None ex_db] h r
  show ?thesis by simp
qed

end
